theory Spec2Isabelle
  imports Complex_Main
begin

section \<open>Python values, errors and the notebook world\<close>

text \<open>
  The module \<^verbatim>\<open>NGLView.py\<close> is glue between a notebook, a selection list and a 3D viewer
  widget. Its functions are embedded as state-passing functions over a \<open>world\<close>: the viewer
  widgets created so far (a widget's identity is its position in that list) and the
  notebook-level events (prints, files handed to \<open>open\<close>, displayed layouts, pauses, the
  color legend).
  A widget is the record of how it was created and of the calls made on it, in order.
  Every function returns its result, or the exception it raised, together with the world
  as it stands at that moment: what was done before a raise stays done.
\<close>

datatype error =
    NameError | TypeError | IndexError | KeyError | AttributeError
  | FileNotFoundError
  | OSError string
  | DataFrameError

text \<open>Objects that are only passed through: affinities, table cells, coordinates.\<close>

datatype pyobj = Str string | Num int | Flt real | Tup "pyobj list"

text \<open>The script \<^verbatim>\<open>_RESIDUES_AROUND.format(index=.., radius=..)\<close>, by its two arguments.\<close>

datatype js_code = RESIDUES_AROUND int nat

datatype origin =
    NGLWidget "(string \<times> string) list"
  | Show_pdbid string "(string \<times> string) list"
  | Show_file string string "(string \<times> string) list"

datatype ngl_call =
    Add_component string string "(string \<times> string) list"
  | Add_representation string string
  | Center "string option"
  | Render_image bool nat
  | Display_image
  | Download_image string
  | Set_visibility bool nat
  | Comp_add_label nat "string list" "(string \<times> string) list"
  | Comp_add_representation nat string
  | Comp_add_ball_and_stick nat string string real
  | Comp_center nat nat
  | Execute_js_code js_code
  | Shape_add_cylinder pyobj pyobj "real list" "real list" string
  | Close

record ngl_widget =
  ngl_origin :: origin
  ngl_calls :: "ngl_call list"

record selector =
  sel_options :: "(string \<times> int) list"
  sel_description :: string
  sel_rows :: nat
  sel_layout :: "(string \<times> string) list"

record app_layout =
  app_left_sidebar :: selector
  app_center :: "nat option"
  app_pane_widths :: "nat list"
  app_height :: "string option"

datatype event =
    Print string
  | Open_file string string
  | Display app_layout
  | Sleep nat
  | Plt_show "(string \<times> real list) list"

record world =
  w_widgets :: "ngl_widget list"
  w_events :: "event list"

text \<open>A change notification: \<^verbatim>\<open>change["name"]\<close>, \<^verbatim>\<open>change["new"]\<close>, \<^verbatim>\<open>change["old"]\<close>. The
  selected value is an integer or Python's \<open>None\<close>.\<close>

record change =
  ch_name :: string
  ch_new :: "int option"
  ch_old :: "int option"

subsection \<open>The viewer library, as far as the module depends on it\<close>

definition emit :: "event \<Rightarrow> world \<Rightarrow> world" where
  "emit e w = w\<lparr>w_events := w_events w @ [e]\<rparr>"

definition new_widget :: "origin \<Rightarrow> world \<Rightarrow> nat \<times> world" where
  "new_widget orig w =
     (length (w_widgets w),
      w\<lparr>w_widgets := w_widgets w @ [\<lparr>ngl_origin = orig, ngl_calls = []\<rparr>]\<rparr>)"

definition call :: "nat \<Rightarrow> ngl_call \<Rightarrow> world \<Rightarrow> world" where
  "call v c w =
     w\<lparr>w_widgets := (w_widgets w)
        [v := (w_widgets w ! v)\<lparr>ngl_calls := ngl_calls (w_widgets w ! v) @ [c]\<rparr>]\<rparr>"

fun is_add_component :: "ngl_call \<Rightarrow> bool" where
  "is_add_component (Add_component src ext kw) = True"
| "is_add_component c = False"

text \<open>The number of components of a widget: \<open>show_pdbid\<close> and \<open>show_file\<close> create the
  widget with one component, every \<open>add_component\<close> appends one.\<close>

definition n_components :: "ngl_widget \<Rightarrow> nat" where
  "n_components x =
     (case ngl_origin x of NGLWidget kw \<Rightarrow> 0 | Show_pdbid p kw \<Rightarrow> 1 | Show_file f e kw \<Rightarrow> 1)
     + length (filter is_add_component (ngl_calls x))"

text \<open>\<open>viewer.add_component(src, ext=.., ..)\<close> returns the new component, here its index.\<close>

definition add_component ::
  "nat \<Rightarrow> string \<Rightarrow> string \<Rightarrow> (string \<times> string) list \<Rightarrow> world \<Rightarrow> nat \<times> world" where
  "add_component v src ext kw w =
     (n_components (w_widgets w ! v), call v (Add_component src ext kw) w)"

text \<open>\<open>viewer.hide(indices)\<close> walks the indices; each one is looked up in the widget's
  component list (an \<open>IndexError\<close> when there is no such component) and then made invisible.\<close>

fun hide :: "nat \<Rightarrow> nat list \<Rightarrow> world \<Rightarrow> (error + unit) \<times> world" where
  "hide v [] w = (Inr (), w)"
| "hide v (i # indices) w =
     (if i < n_components (w_widgets w ! v)
      then hide v indices (call v (Set_visibility False i) w)
      else (Inl IndexError, w))"

text \<open>\<open>getattr(viewer, f"component_{value}")\<close>: the widget has the attributes
  \<open>component_0\<close>, \<open>component_1\<close>, ... one per component, and no other of that shape.\<close>

definition getattr_component :: "nat \<Rightarrow> int option \<Rightarrow> world \<Rightarrow> error + nat" where
  "getattr_component v val w =
     (case val of
        None \<Rightarrow> Inl AttributeError
      | Some i \<Rightarrow>
          if 0 \<le> i \<and> nat i < n_components (w_widgets w ! v) then Inr (nat i)
          else Inl AttributeError)"

text \<open>Whether component \<open>i\<close> of a widget is shown: the last visibility set for it, and
  shown when none was set.\<close>

definition visible :: "ngl_widget \<Rightarrow> nat \<Rightarrow> bool" where
  "visible x i =
     foldl (\<lambda>b c. case c of Set_visibility b' j \<Rightarrow> (if j = i then b' else b) | _ \<Rightarrow> b)
       True (ngl_calls x)"

definition is_closed :: "ngl_widget \<Rightarrow> bool" where
  "is_closed x = (Close \<in> set (ngl_calls x))"

subsection \<open>Python built-ins\<close>

text \<open>\<open>xs[v]\<close> for a list: \<open>None\<close> is no index, a negative index counts from the end.\<close>

definition py_index :: "'a list \<Rightarrow> int option \<Rightarrow> error + 'a" where
  "py_index xs v =
     (case v of
        None \<Rightarrow> Inl TypeError
      | Some i \<Rightarrow>
          if 0 \<le> i \<and> i < int (length xs) then Inr (xs ! nat i)
          else if i < 0 \<and> - int (length xs) \<le> i then Inr (xs ! nat (int (length xs) + i))
          else Inl IndexError)"

text \<open>\<open>sep.join(xs)\<close>.\<close>

fun join :: "string \<Rightarrow> string list \<Rightarrow> string" where
  "join sep [] = []"
| "join sep [x] = x"
| "join sep (x # y # ys) = x @ sep @ join sep (y # ys)"

text \<open>\<open>[(label, i) for (i, label) in enumerate(labels, 1)]\<close>.\<close>

definition enumerate_from_1 :: "string list \<Rightarrow> (string \<times> int) list" where
  "enumerate_from_1 labels = zip labels (map int [1 ..< length labels + 1])"

text \<open>\<open>list(map(lambda x: str(x) + " kcal/mol", affinities))\<close>; \<open>str\<close> is the interpreter's
  and is taken as a parameter.\<close>

definition kcal_labels :: "(pyobj \<Rightarrow> string) \<Rightarrow> pyobj list \<Rightarrow> string list" where
  "kcal_labels py_str affinities = map (\<lambda>x. py_str x @ '' kcal/mol'') affinities"

section \<open>protein\<close>

text \<open>The file system is a parameter: \<open>fs path\<close> is the content \<open>open(path)\<close> gives, or the
  error it raises.\<close>

definition protein ::
  "(string \<Rightarrow> error + string) \<Rightarrow> string \<Rightarrow> string \<Rightarrow> string option \<Rightarrow> world
    \<Rightarrow> (error + nat) \<times> world" where
  "protein fs input_type input_value output_image_filename w =
     (let (r, w1) =
        (if input_type = ''pdb_code''
         then (let (viewer, w') = new_widget (Show_pdbid input_value [(''height'', ''600px'')]) w
               in (Inr viewer, w'))
         else (let w' = emit (Open_file input_value ''r'') w
               in case fs input_value of
                    Inl e \<Rightarrow> (Inl e, w')
                  | Inr f \<Rightarrow>
                      (let (viewer, w'') =
                             new_widget (Show_file f input_type
                               [(''height'', ''600px''), (''default_representation'', ''False'')]) w'
                       in (Inr viewer, call viewer (Add_representation ''cartoon'' ''protein'') w''))))
      in case r of
           Inl e \<Rightarrow> (Inl e, w1)
         | Inr viewer \<Rightarrow>
             (let w2 = call viewer (Add_representation ''ball+stick'' ''hetero and not water'') w1;
                  w3 = call viewer (Center (Some ''protein'')) w2;
                  w4 = (case output_image_filename of
                          None \<Rightarrow> w3
                        | Some fn \<Rightarrow>
                            call viewer (Download_image fn)
                              (call viewer Display_image
                                (call viewer (Render_image True 2) w3)))
              in (Inr viewer, w4)))"

section \<open>binding\_site\<close>

text \<open>The names bound at module level once the module is imported: its imports and its
  four functions. A name that a function body uses without binding it is looked up here
  when the body runs (and then among the interpreter's built-in names, none of which is
  \<open>NGLView\<close>); when it is not found, the statement raises a \<open>NameError\<close>. The first
  statement of \<open>binding_site\<close> is \<^verbatim>\<open>viewer = NGLView.protein(...)\<close>.\<close>

definition module_globals :: "string list" where
  "module_globals =
     [''time'', ''nv'', ''AppLayout'', ''Layout'', ''Select'', ''Button'', ''mpl'', ''plt'',
      ''colors'', ''np'', ''pd'', ''protein'', ''binding_site'', ''docking'', ''interactions'']"

definition binding_site ::
  "(string \<Rightarrow> error + string) \<Rightarrow> string \<Rightarrow> string \<Rightarrow> string \<Rightarrow> world
    \<Rightarrow> (error + nat) \<times> world" where
  "binding_site fs protein_input_type protein_input_value ccp4_filepath w =
     (if ''NGLView'' \<notin> set module_globals then (Inl NameError, w)
      else
        (case protein fs protein_input_type protein_input_value None w of
           (Inl e, w1) \<Rightarrow> (Inl e, w1)
         | (Inr viewer, w1) \<Rightarrow>
             (let w2 = emit (Open_file ccp4_filepath ''rb'') w1
              in case fs ccp4_filepath of
                   Inl e \<Rightarrow> (Inl e, w2)
                 | Inr f \<Rightarrow>
                     (let (c, w3) = add_component viewer f ''ccp4'' [] w2;
                          w4 = call viewer (Center None) w3
                      in (Inr viewer, w4)))))"

section \<open>docking\<close>

definition label_kwargs :: "(string \<times> string) list" where
  "label_kwargs =
     [(''labelType'', ''text''), (''sele'', ''@0''), (''showBackground'', ''True''),
      (''backgroundColor'', ''black'')]"

text \<open>The selection list of both views.\<close>

definition pose_selector :: "string list \<Rightarrow> string list \<Rightarrow> selector" where
  "pose_selector list_docking_poses_labels list_docking_poses_filepaths =
     \<lparr>sel_options = enumerate_from_1 list_docking_poses_labels,
      sel_description = [],
      sel_rows = (if length list_docking_poses_filepaths \<le> 52
                  then length list_docking_poses_filepaths else 52),
      sel_layout = [(''flex'', ''flex-grow''), (''width'', ''auto'')]\<rparr>"

text \<open>The loop over \<open>zip(list_docking_poses_filepaths, list_docking_poses_affinities)\<close>.\<close>

fun add_ligands :: "nat \<Rightarrow> string \<Rightarrow> (string \<times> string) list \<Rightarrow> world \<Rightarrow> world" where
  "add_ligands viewer ext [] w = w"
| "add_ligands viewer ext ((docking_pose_filepath, ligand_label) # rest) w =
     (let (ngl_ligand, w1) = add_component viewer docking_pose_filepath ext [] w;
          w2 = call viewer (Comp_add_label ngl_ligand [ligand_label] label_kwargs) w1
      in add_ligands viewer ext rest w2)"

text \<open>The event handler of the docking view; it closes over the viewer and the list of
  pose file paths.\<close>

definition docking_on_selection_change ::
  "nat \<Rightarrow> string list \<Rightarrow> change \<Rightarrow> world \<Rightarrow> (error + unit) \<times> world" where
  "docking_on_selection_change viewer list_docking_poses_filepaths change w =
     (if ch_name change = ''value'' \<and> ch_new change \<noteq> ch_old change then
        (case hide viewer [1 ..< length list_docking_poses_filepaths + 1] w of
           (Inl e, w1) \<Rightarrow> (Inl e, w1)
         | (Inr u, w1) \<Rightarrow>
             (case getattr_component viewer (ch_new change) w1 of
                Inl e \<Rightarrow> (Inl e, w1)
              | Inr component \<Rightarrow>
                  (let w2 = call viewer (Set_visibility True component) w1;
                       w3 = call viewer (Comp_center component 500) w2;
                       w4 = call viewer
                              (Execute_js_code (RESIDUES_AROUND (int component) 6)) w3
                   in (Inr (), w4))))
      else (Inr (), w))"

definition docking ::
  "(pyobj \<Rightarrow> string) \<Rightarrow> string \<Rightarrow> string \<Rightarrow> string list \<Rightarrow> string \<Rightarrow> string list
    \<Rightarrow> pyobj list \<Rightarrow> world \<Rightarrow> (error + nat) \<times> world" where
  "docking py_str protein_filepath protein_file_extension list_docking_poses_filepaths
     docking_poses_file_extension list_docking_poses_labels list_docking_poses_affinities w =
     (let w1 = emit (Print ''(CID - mode)'') (emit (Print ''Docking modes'') w);
          (viewer, w2) = new_widget (NGLWidget [(''height'', ''860px'')]) w1;
          (p, w3) = add_component viewer protein_filepath protein_file_extension [] w2;
          affinities = kcal_labels py_str list_docking_poses_affinities;
          w4 = add_ligands viewer docking_poses_file_extension
                 (zip list_docking_poses_filepaths affinities) w3;
          selector = pose_selector list_docking_poses_labels list_docking_poses_filepaths;
          w5 = emit (Display \<lparr>app_left_sidebar = selector, app_center = Some viewer,
                              app_pane_widths = [1, 6, 1], app_height = None\<rparr>) w4
      in case docking_on_selection_change viewer list_docking_poses_filepaths
                \<lparr>ch_name = ''value'', ch_new = Some 1, ch_old = None\<rparr> w5 of
           (Inl e, w6) \<Rightarrow> (Inl e, w6)
         | (Inr u, w6) \<Rightarrow> (Inr viewer, w6))"

section \<open>interactions\<close>

text \<open>The color table, in the order of the source. Its components are the decimal
  literals of the source read as real numbers; rounding a literal to a floating-point
  number is monotone and keeps 0 and 1, so a bound by 0 and 1 holds for the one when it
  holds for the other.\<close>

definition color_map :: "(string \<times> real list) list" where
  "color_map =
     [(''hydrophobic'', [0.90, 0.10, 0.29]),
      (''hbond'', [0.26, 0.83, 0.96]),
      (''waterbridge'', [1.00, 0.88, 0.10]),
      (''saltbridge'', [0.67, 1.00, 0.76]),
      (''pistacking'', [0.75, 0.94, 0.27]),
      (''pication'', [0.27, 0.60, 0.56]),
      (''halogen'', [0.94, 0.20, 0.90]),
      (''metal'', [0.90, 0.75, 1.00])]"

text \<open>\<open>color_map[interaction_type]\<close>.\<close>

definition color_map_lookup :: "string \<Rightarrow> error + real list" where
  "color_map_lookup interaction_type =
     (case map_of color_map interaction_type of None \<Rightarrow> Inl KeyError | Some color \<Rightarrow> Inr color)"

text \<open>
  \<open>pd.DataFrame.from_records(records, columns=header)\<close> followed by \<open>iterrows()\<close>, for the
  tables the handler is written for: every record has one cell per column and no column
  name occurs twice. The data-frame library keeps a table by columns, each under one
  type, and \<open>iterrows()\<close> hands every row back under one type of its own, so a number may
  come back converted (an integer as a float, when its column or its row holds floats as
  well). What comes back for a cell is a parameter: \<open>df_value records j c\<close> is the value
  handed back for the cell \<open>c\<close> in column \<open>j\<close> of the table with these records. Each row
  then answers \<open>row[name]\<close> with the value under that column, and with a \<open>KeyError\<close> when
  there is no such column. What the library does with any other table is not modelled;
  \<open>DataFrameError\<close> stands for it.
\<close>

definition iterrows ::
  "(pyobj list list \<Rightarrow> nat \<Rightarrow> pyobj \<Rightarrow> pyobj) \<Rightarrow> pyobj list list \<Rightarrow> pyobj list list" where
  "iterrows df_value records =
     map (\<lambda>record. map (\<lambda>(j, c). df_value records j c) (zip [0 ..< length record] record))
       records"

definition DataFrame_from_records ::
  "(pyobj list list \<Rightarrow> nat \<Rightarrow> pyobj \<Rightarrow> pyobj) \<Rightarrow> pyobj list list \<Rightarrow> pyobj list
    \<Rightarrow> error + (pyobj list \<times> pyobj list list)" where
  "DataFrame_from_records df_value records columns =
     (if distinct columns \<and> list_all (\<lambda>r. length r = length columns) records
      then Inr (columns, iterrows df_value records) else Inl DataFrameError)"

definition series_get :: "pyobj list \<Rightarrow> pyobj list \<Rightarrow> string \<Rightarrow> error + pyobj" where
  "series_get columns row key =
     (case map_of (zip columns row) (Str key) of None \<Rightarrow> Inl KeyError | Some v \<Rightarrow> Inr v)"

text \<open>The inner loop \<open>for _, interaction in df_interactions.iterrows()\<close>.\<close>

fun draw_rows ::
  "nat \<Rightarrow> pyobj list \<Rightarrow> real list \<Rightarrow> string \<Rightarrow> pyobj list list \<Rightarrow> pyobj list \<Rightarrow> world
    \<Rightarrow> (error + pyobj list) \<times> world" where
  "draw_rows viewer columns color name [] interacting_residues w =
     (Inr interacting_residues, w)"
| "draw_rows viewer columns color name (interaction # rest) interacting_residues w =
     (case series_get columns interaction ''LIGCOO'' of
        Inl e \<Rightarrow> (Inl e, w)
      | Inr ligcoo \<Rightarrow>
          (case series_get columns interaction ''PROTCOO'' of
             Inl e \<Rightarrow> (Inl e, w)
           | Inr protcoo \<Rightarrow>
               (let w1 = call viewer (Shape_add_cylinder ligcoo protcoo color [0.1] name) w
                in case series_get columns interaction ''RESNR'' of
                     Inl e \<Rightarrow> (Inl e, w1)
                   | Inr resnr \<Rightarrow>
                       draw_rows viewer columns color name rest
                         (interacting_residues @ [resnr]) w1)))"

text \<open>The outer loop \<open>for interaction_type, interaction_list in interactions.items()\<close>; a
  dictionary is the list of its items in insertion order.\<close>

fun draw_interactions ::
  "(pyobj list list \<Rightarrow> nat \<Rightarrow> pyobj \<Rightarrow> pyobj) \<Rightarrow> nat
    \<Rightarrow> (string \<times> pyobj list list) list \<Rightarrow> pyobj list \<Rightarrow> world
    \<Rightarrow> (error + pyobj list) \<times> world" where
  "draw_interactions df_value viewer [] interacting_residues w = (Inr interacting_residues, w)"
| "draw_interactions df_value viewer ((interaction_type, interaction_list) # rest)
     interacting_residues w =
     (case color_map_lookup interaction_type of
        Inl e \<Rightarrow> (Inl e, w)
      | Inr color \<Rightarrow>
          if length interaction_list = 1
          then draw_interactions df_value viewer rest interacting_residues w
          else
            (case interaction_list of
               [] \<Rightarrow> (Inl IndexError, w)
             | header # records \<Rightarrow>
                 (case DataFrame_from_records df_value records header of
                    Inl e \<Rightarrow> (Inl e, w)
                  | Inr (columns, rows) \<Rightarrow>
                      (case draw_rows viewer columns color interaction_type rows
                              interacting_residues w of
                         (Inl e, w1) \<Rightarrow> (Inl e, w1)
                       | (Inr interacting_residues1, w1) \<Rightarrow>
                           draw_interactions df_value viewer rest interacting_residues1 w1))))"

text \<open>The two selection strings built from the residues; \<open>{r}\<close> in an f-string is the
  interpreter's formatting, the parameter \<open>py_str\<close>.\<close>

definition res_sele :: "(pyobj \<Rightarrow> string) \<Rightarrow> pyobj list \<Rightarrow> string" where
  "res_sele py_str interacting_residues =
     join '' or '' (map (\<lambda>r. ''('' @ py_str r @ '' and not _H)'') interacting_residues)"

definition res_sele_nc :: "(pyobj \<Rightarrow> string) \<Rightarrow> pyobj list \<Rightarrow> string" where
  "res_sele_nc py_str interacting_residues =
     join '' or ''
       (map (\<lambda>r. ''('' @ py_str r @ '' and ((_O) or (_N) or (_S)))'') interacting_residues)"

text \<open>The event handler of the interactions view. It closes over the layout \<open>app\<close> (whose
  \<open>center\<close> it rebinds), the file paths, the affinity labels (already mapped to strings) and
  the interaction dictionaries.\<close>

definition interactions_on_selection_change ::
  "(pyobj list list \<Rightarrow> nat \<Rightarrow> pyobj \<Rightarrow> pyobj) \<Rightarrow> (pyobj \<Rightarrow> string) \<Rightarrow> string
    \<Rightarrow> string \<Rightarrow> string list \<Rightarrow> string \<Rightarrow> string list
    \<Rightarrow> (string \<times> pyobj list list) list list \<Rightarrow> change \<Rightarrow> app_layout \<times> world
    \<Rightarrow> (error + unit) \<times> app_layout \<times> world" where
  "interactions_on_selection_change df_value py_str protein_filepath protein_file_extension
     list_docking_poses_filepaths docking_poses_file_extension list_docking_poses_affinities
     list_docking_poses_plip_dicts change aw =
     (let (app, w) = aw in
      if ch_name change = ''value'' \<and> ch_new change \<noteq> ch_old change then
        (let w1 = (case app_center app of None \<Rightarrow> w | Some c \<Rightarrow> call c Close w);
             (viewer, w2) =
               new_widget (NGLWidget [(''height'', ''860px''), (''default'', ''True''),
                                      (''gui'', ''True'')]) w1;
             app1 = app\<lparr>app_center := Some viewer\<rparr>;
             (prot_component, w3) =
               add_component viewer protein_filepath protein_file_extension
                 [(''default_representation'', ''False'')] w2;
             w4 = call viewer (Comp_add_representation prot_component ''cartoon'') w3;
             w5 = emit (Sleep 1) w4
         in case py_index list_docking_poses_filepaths (ch_new change) of
              Inl e \<Rightarrow> (Inl e, app1, w5)
            | Inr pose_filepath \<Rightarrow>
                (let (lig_component, w6) =
                       add_component viewer pose_filepath docking_poses_file_extension [] w5
                 in case py_index list_docking_poses_affinities (ch_new change) of
                      Inl e \<Rightarrow> (Inl e, app1, w6)
                    | Inr affinity \<Rightarrow>
                        (let w7 = call viewer
                                    (Comp_add_label lig_component [affinity] label_kwargs) w6;
                             w8 = emit (Sleep 1) w7;
                             w9 = call viewer (Comp_center lig_component 500) w8
                         in case py_index list_docking_poses_plip_dicts (ch_new change) of
                              Inl e \<Rightarrow> (Inl e, app1, w9)
                            | Inr interactions \<Rightarrow>
                                (case draw_interactions df_value viewer interactions [] w9 of
                                   (Inl e, w10) \<Rightarrow> (Inl e, app1, w10)
                                 | (Inr interacting_residues, w10) \<Rightarrow>
                                     (let w11 = call viewer
                                            (Comp_add_ball_and_stick prot_component
                                               (res_sele py_str interacting_residues)
                                               ''chainindex'' 1.5) w10;
                                          w12 = call viewer
                                            (Comp_add_ball_and_stick prot_component
                                               (res_sele_nc py_str interacting_residues)
                                               ''element'' 1.5) w11
                                      in (Inr (), app1, w12))))))
      else (Inr (), app, w))"

definition interactions ::
  "(pyobj list list \<Rightarrow> nat \<Rightarrow> pyobj \<Rightarrow> pyobj) \<Rightarrow> (pyobj \<Rightarrow> string) \<Rightarrow> string
    \<Rightarrow> string \<Rightarrow> string list \<Rightarrow> string \<Rightarrow> string list
    \<Rightarrow> pyobj list \<Rightarrow> (string \<times> pyobj list list) list list \<Rightarrow> world
    \<Rightarrow> (error + app_layout) \<times> world" where
  "interactions df_value py_str protein_filepath protein_file_extension
     list_docking_poses_filepaths docking_poses_file_extension list_docking_poses_labels
     list_docking_poses_affinities list_docking_poses_plip_dicts w =
     (let selector = pose_selector list_docking_poses_labels list_docking_poses_filepaths;
          app = \<lparr>app_left_sidebar = selector, app_center = None,
                 app_pane_widths = [1, 6, 1], app_height = Some ''860px''\<rparr>;
          w1 = emit (Plt_show (take (2 * 4) color_map)) w;
          affinities = kcal_labels py_str list_docking_poses_affinities
      in case interactions_on_selection_change df_value py_str protein_filepath
                protein_file_extension list_docking_poses_filepaths
                docking_poses_file_extension affinities list_docking_poses_plip_dicts
                \<lparr>ch_name = ''value'', ch_new = Some 0, ch_old = None\<rparr> (app, w1) of
           (Inl e, app', w2) \<Rightarrow> (Inl e, w2)
         | (Inr u, app', w2) \<Rightarrow> (Inr app', w2))"

subsection \<open>The selection list's notifications\<close>

text \<open>When the user picks the entry at position \<open>k\<close> of the list (counting from 0), the
  list widget notifies its observers of a change named \<open>value\<close> whose new value is the
  value paired with that entry's label in \<open>options\<close>; \<open>old\<close> is the value selected before.\<close>

definition user_selects :: "selector \<Rightarrow> nat \<Rightarrow> int option \<Rightarrow> change option" where
  "user_selects sel k old_value =
     (if k < length (sel_options sel)
      then Some \<lparr>ch_name = ''value'', ch_new = Some (snd (sel_options sel ! k)),
                 ch_old = old_value\<rparr>
      else None)"

section \<open>Auxiliary definitions\<close>

text \<open>The definitions below are not part of the module; the theorems are stated with them.\<close>

subsection \<open>Worlds\<close>

text \<open>The world after a sequence of calls on one widget.\<close>

definition after_calls :: "nat \<Rightarrow> ngl_call list \<Rightarrow> world \<Rightarrow> world" where
  "after_calls v cs w =
     w\<lparr>w_widgets := (w_widgets w)
        [v := (w_widgets w ! v)\<lparr>ngl_calls := ngl_calls (w_widgets w ! v) @ cs\<rparr>]\<rparr>"

text \<open>The world once the layout's current center widget, if there is one, was closed.\<close>

definition close_center :: "app_layout \<Rightarrow> world \<Rightarrow> world" where
  "close_center app w = (case app_center app of None \<Rightarrow> w | Some c \<Rightarrow> call c Close w)"

text \<open>A widget as the interactions handler creates it, after the calls \<open>cs\<close>.\<close>

definition fresh_widget :: "ngl_call list \<Rightarrow> ngl_widget" where
  "fresh_widget cs =
     \<lparr>ngl_origin = NGLWidget [(''height'', ''860px''), (''default'', ''True''), (''gui'', ''True'')],
      ngl_calls = cs\<rparr>"

text \<open>The world the interactions handler leaves from the world \<open>w\<close> and the layout
  \<open>app\<close>: the old center closed, one new widget with the calls \<open>cs\<close> on it, and the
  events \<open>evs\<close> added.\<close>

definition staged :: "app_layout \<Rightarrow> world \<Rightarrow> ngl_call list \<Rightarrow> event list \<Rightarrow> world" where
  "staged app w cs evs =
     \<lparr>w_widgets = w_widgets (close_center app w) @ [fresh_widget cs],
      w_events = w_events w @ evs\<rparr>"

subsection \<open>What the interactions view is expected to draw\<close>

text \<open>The calls that load the protein and one pose with its affinity label: the protein
  is component 0 of the new widget, the pose is component 1.\<close>

definition pose_calls :: "string \<Rightarrow> string \<Rightarrow> string \<Rightarrow> string \<Rightarrow> string \<Rightarrow> ngl_call list" where
  "pose_calls protein_filepath protein_file_extension pose_filepath
     docking_poses_file_extension affinity =
     [Add_component protein_filepath protein_file_extension
        [(''default_representation'', ''False'')],
      Comp_add_representation 0 ''cartoon'',
      Add_component pose_filepath docking_poses_file_extension [],
      Comp_add_label 1 [affinity] label_kwargs,
      Comp_center 1 500]"

text \<open>The selection that names one of several alternatives: the alternatives with
  \<open>or\<close> between them.\<close>

fun any_of :: "string list \<Rightarrow> string" where
  "any_of [] = []"
| "any_of (t # ts) = t @ concat (map (\<lambda>u. '' or '' @ u) ts)"

text \<open>The selection of the atoms \<open>atoms\<close> of the given residues: each residue, as the
  interpreter prints it, restricted to those atoms.\<close>

definition residue_selection :: "(pyobj \<Rightarrow> string) \<Rightarrow> string \<Rightarrow> pyobj list \<Rightarrow> string" where
  "residue_selection py_str atoms residues =
     any_of (map (\<lambda>r. ''('' @ py_str r @ '' and '' @ atoms @ '')'') residues)"

text \<open>The two calls that highlight the interacting residues on the protein component:
  all their atoms but the hydrogens by chain, and their oxygen, nitrogen and sulfur atoms
  by element.\<close>

definition highlight_calls :: "(pyobj \<Rightarrow> string) \<Rightarrow> pyobj list \<Rightarrow> ngl_call list" where
  "highlight_calls py_str residues =
     [Comp_add_ball_and_stick 0 (residue_selection py_str ''not _H'' residues)
        ''chainindex'' 1.5,
      Comp_add_ball_and_stick 0 (residue_selection py_str ''((_O) or (_N) or (_S))'' residues)
        ''element'' 1.5]"

text \<open>The cell of a row under a column name, for a row of the header's length.\<close>

definition cell :: "pyobj list \<Rightarrow> pyobj list \<Rightarrow> string \<Rightarrow> pyobj" where
  "cell header record key =
     (case map_of (zip header record) (Str key) of Some v \<Rightarrow> v | None \<Rightarrow> Tup [])"

text \<open>A well-formed table: a header, and either no record, or records of the header's
  length under distinct column names, the three columns the handler reads among them.\<close>

definition table_ok :: "pyobj list list \<Rightarrow> bool" where
  "table_ok interaction_list =
     (case interaction_list of
        [] \<Rightarrow> False
      | header # records \<Rightarrow>
          records = [] \<or>
          (distinct header \<and> list_all (\<lambda>r. length r = length header) records \<and>
           Str ''LIGCOO'' \<in> set header \<and> Str ''PROTCOO'' \<in> set header \<and>
           Str ''RESNR'' \<in> set header))"

text \<open>A well-formed dictionary entry: a type of the color table with a well-formed table.\<close>

definition entry_ok :: "string \<times> pyobj list list \<Rightarrow> bool" where
  "entry_ok entry = (fst entry \<in> set (map fst color_map) \<and> table_ok (snd entry))"

text \<open>A record as the data frame hands it back: cell by cell, the value handed back for
  the cell in its column of the table.\<close>

definition handed_back ::
  "(pyobj list list \<Rightarrow> nat \<Rightarrow> pyobj \<Rightarrow> pyobj) \<Rightarrow> pyobj list list \<Rightarrow> pyobj list \<Rightarrow> pyobj list" where
  "handed_back df_value records record =
     map (\<lambda>j. df_value records j (record ! j)) [0 ..< length record]"

text \<open>One cylinder per record of an entry's table, from the ligand coordinate to the
  protein coordinate of the record as the data frame hands it back, in the color the
  table assigns to the entry's type and named by the type; and the residues of those
  records.\<close>

definition cylinders_of ::
  "(pyobj list list \<Rightarrow> nat \<Rightarrow> pyobj \<Rightarrow> pyobj) \<Rightarrow> string \<times> pyobj list list \<Rightarrow> ngl_call list" where
  "cylinders_of df_value entry =
     map (\<lambda>record.
            Shape_add_cylinder
              (cell (hd (snd entry)) (handed_back df_value (tl (snd entry)) record) ''LIGCOO'')
              (cell (hd (snd entry)) (handed_back df_value (tl (snd entry)) record) ''PROTCOO'')
              (case map_of color_map (fst entry) of Some color \<Rightarrow> color | None \<Rightarrow> [])
              [0.1] (fst entry))
       (tl (snd entry))"

definition residues_of ::
  "(pyobj list list \<Rightarrow> nat \<Rightarrow> pyobj \<Rightarrow> pyobj) \<Rightarrow> string \<times> pyobj list list \<Rightarrow> pyobj list" where
  "residues_of df_value entry =
     map (\<lambda>record. cell (hd (snd entry)) (handed_back df_value (tl (snd entry)) record) ''RESNR'')
       (tl (snd entry))"

text \<open>The name a cylinder was drawn with; a cylinder drawn by the handler carries a type
  of the color table.\<close>

fun cylinder_name :: "ngl_call \<Rightarrow> string option" where
  "cylinder_name (Shape_add_cylinder p q color radius name) = Some name"
| "cylinder_name c = None"

definition drawn_ok :: "ngl_call \<Rightarrow> bool" where
  "drawn_ok c =
     (case cylinder_name c of None \<Rightarrow> False | Some name \<Rightarrow> map_of color_map name \<noteq> None)"

text \<open>The eight interaction types of the color table.\<close>

definition fixed_names :: "string set" where
  "fixed_names =
     {''hydrophobic'', ''hbond'', ''waterbridge'', ''saltbridge'', ''pistacking'',
      ''pication'', ''halogen'', ''metal''}"

subsection \<open>An example session\<close>

text \<open>\<open>str\<close> on text and on integers, for the examples.\<close>

fun digits :: "nat \<Rightarrow> string" where
  "digits n =
     (if n < 10 then [char_of (48 + n)]
      else digits (n div 10) @ [char_of (48 + n mod 10)])"

declare digits.simps [simp del]

fun str_example :: "pyobj \<Rightarrow> string" where
  "str_example (Str s) = s"
| "str_example (Num i) = (if i < 0 then ''-'' @ digits (nat (- i)) else digits (nat i))"
| "str_example x = ''...''"

definition w_empty :: world where
  "w_empty = \<lparr>w_widgets = [], w_events = []\<rparr>"

definition fs_example :: "string \<Rightarrow> error + string" where
  "fs_example path =
     (if path = ''rec.pdb'' then Inr ''ATOM''
      else if path = ''pocket.ccp4'' then Inr ''MAP''
      else Inl FileNotFoundError)"

definition example_filepaths :: "string list" where
  "example_filepaths = [''pose1.pdbqt'', ''pose2.pdbqt'', ''pose3.pdbqt'']"

definition example_labels :: "string list" where
  "example_labels = [''1 - 1'', ''1 - 2'', ''1 - 3'']"

definition example_affinities :: "pyobj list" where
  "example_affinities = [Num (- 9), Num (- 8), Num (- 7)]"

definition example_kcal :: "string list" where
  "example_kcal = [''-9 kcal/mol'', ''-8 kcal/mol'', ''-7 kcal/mol'']"

text \<open>The tables of the example hold a column of text and two columns of tuples, and
  their one column of numbers holds integers only; the data frame hands every cell of
  such a table back as it was given.\<close>

definition example_value :: "pyobj list list \<Rightarrow> nat \<Rightarrow> pyobj \<Rightarrow> pyobj" where
  "example_value records j c = c"

definition example_header :: "pyobj list" where
  "example_header = [Str ''RESNR'', Str ''RESTYPE'', Str ''LIGCOO'', Str ''PROTCOO'']"

definition example_dict1 :: "(string \<times> pyobj list list) list" where
  "example_dict1 =
     [(''hydrophobic'',
        [example_header,
         [Num 104, Str ''LEU'', Tup [Num 1, Num 2, Num 3], Tup [Num 4, Num 5, Num 6]],
         [Num 87, Str ''VAL'', Tup [Num 1, Num 0, Num 3], Tup [Num 2, Num 2, Num 2]]]),
      (''hbond'', [example_header])]"

definition example_dict2 :: "(string \<times> pyobj list list) list" where
  "example_dict2 =
     [(''hbond'',
        [example_header,
         [Num 45, Str ''SER'', Tup [Num 7, Num 8, Num 9], Tup [Num 9, Num 8, Num 7]]])]"

definition example_dict3 :: "(string \<times> pyobj list list) list" where
  "example_dict3 =
     [(''saltbridge'',
        [example_header,
         [Num 12, Str ''LYS'', Tup [Num 0, Num 0, Num 1], Tup [Num 3, Num 3, Num 3]]])]"

text \<open>A dictionary with a type that is not in the color table.\<close>

definition example_dict_unknown :: "(string \<times> pyobj list list) list" where
  "example_dict_unknown =
     [(''saltbridge'',
        [example_header,
         [Num 12, Str ''LYS'', Tup [Num 0, Num 0, Num 1], Tup [Num 3, Num 3, Num 3]]]),
      (''covalent'',
        [example_header,
         [Num 33, Str ''CYS'', Tup [Num 5, Num 5, Num 5], Tup [Num 6, Num 6, Num 6]]])]"

definition example_plip_dicts :: "(string \<times> pyobj list list) list list" where
  "example_plip_dicts = [example_dict1, example_dict2, example_dict3]"

text \<open>The layout as \<open>interactions\<close> builds it, before the first selection.\<close>

definition example_app0 :: app_layout where
  "example_app0 =
     \<lparr>app_left_sidebar = pose_selector example_labels example_filepaths,
      app_center = None, app_pane_widths = [1, 6, 1], app_height = Some ''860px''\<rparr>"

text \<open>The layout once the first pose is shown.\<close>

definition example_app1 :: app_layout where
  "example_app1 = example_app0\<lparr>app_center := Some 0\<rparr>"

text \<open>The docking view and the interactions view of the example, and the handler the
  interactions view registers.\<close>

definition example_docking :: "(error + nat) \<times> world" where
  "example_docking =
     docking str_example ''rec.pdb'' ''pdb'' example_filepaths ''pdbqt'' example_labels
       example_affinities w_empty"

definition example_interactions :: "(error + app_layout) \<times> world" where
  "example_interactions =
     interactions example_value str_example ''rec.pdb'' ''pdb'' example_filepaths ''pdbqt'' example_labels
       example_affinities example_plip_dicts w_empty"

definition example_handler ::
  "change \<Rightarrow> app_layout \<times> world \<Rightarrow> (error + unit) \<times> app_layout \<times> world" where
  "example_handler =
     interactions_on_selection_change example_value str_example ''rec.pdb'' ''pdb'' example_filepaths
       ''pdbqt'' example_kcal example_plip_dicts"

section \<open>Lemmas on the world\<close>

lemma call_after_calls: "call v c w = after_calls v [c] w"
  by (simp add: call_def after_calls_def)

lemma after_calls_twice: "after_calls v cs (after_calls v ds w) = after_calls v (ds @ cs) w"
proof (cases "v < length (w_widgets w)")
  case True
  then show ?thesis by (simp add: after_calls_def)
next
  case False
  then have beyond: "\<And>a. (w_widgets w)[v := a] = w_widgets w"
    by (simp add: list_update_beyond)
  have "after_calls v ds w = w" by (simp add: after_calls_def beyond)
  moreover have "after_calls v (ds @ cs) w = w" by (simp add: after_calls_def beyond)
  moreover have "after_calls v cs w = w" by (simp add: after_calls_def beyond)
  ultimately show ?thesis by simp
qed

lemma after_calls_Nil: "after_calls v [] w = w"
  by (simp add: after_calls_def)

lemma w_events_after_calls: "w_events (after_calls v cs w) = w_events w"
  by (simp add: after_calls_def)

lemma length_widgets_after_calls:
  "length (w_widgets (after_calls v cs w)) = length (w_widgets w)"
  by (simp add: after_calls_def)

lemma calls_after_calls:
  "v < length (w_widgets w) \<Longrightarrow>
     ngl_calls (w_widgets (after_calls v cs w) ! v) = ngl_calls (w_widgets w ! v) @ cs"
  by (simp add: after_calls_def)

lemma origin_after_calls:
  "v < length (w_widgets w) \<Longrightarrow>
     ngl_origin (w_widgets (after_calls v cs w) ! v) = ngl_origin (w_widgets w ! v)"
  by (simp add: after_calls_def)

lemma widget_after_calls_other:
  "u \<noteq> v \<Longrightarrow> w_widgets (after_calls v cs w) ! u = w_widgets w ! u"
  by (simp add: after_calls_def)

lemma n_components_after_calls:
  "v < length (w_widgets w) \<Longrightarrow>
     n_components (w_widgets (after_calls v cs w) ! v) =
       n_components (w_widgets w ! v) + length (filter is_add_component cs)"
  by (simp add: n_components_def calls_after_calls origin_after_calls)

lemma hide_after_calls:
  "v < length (w_widgets w) \<Longrightarrow>
   list_all (\<lambda>i. i < n_components (w_widgets w ! v)) indices \<Longrightarrow>
     hide v indices w = (Inr (), after_calls v (map (Set_visibility False) indices) w)"
proof (induction indices arbitrary: w)
  case Nil
  then show ?case by (simp add: after_calls_Nil)
next
  case (Cons i indices)
  let ?w1 = "after_calls v [Set_visibility False i] w"
  have len: "v < length (w_widgets ?w1)"
    using Cons.prems(1) by (simp add: length_widgets_after_calls)
  have nc: "n_components (w_widgets ?w1 ! v) = n_components (w_widgets w ! v)"
    using Cons.prems(1) by (simp add: n_components_after_calls)
  have "hide v indices ?w1 = (Inr (), after_calls v (map (Set_visibility False) indices) ?w1)"
    using Cons.IH [OF len] Cons.prems(2) by (simp add: nc)
  then show ?case
    using Cons.prems(2) by (simp add: call_after_calls after_calls_twice)
qed

lemma visible_after:
  "ngl_calls y = ngl_calls x @ cs \<Longrightarrow>
     visible y j =
       foldl (\<lambda>b c. case c of Set_visibility b' k \<Rightarrow> (if k = j then b' else b) | _ \<Rightarrow> b)
         (visible x j) cs"
  by (simp add: visible_def)

lemma foldl_hidden:
  "foldl (\<lambda>b c. case c of Set_visibility b' k \<Rightarrow> (if k = j then b' else b) | _ \<Rightarrow> b)
     b (map (Set_visibility False) indices) = (if j \<in> set indices then False else b)"
  by (induction indices arbitrary: b) auto

subsection \<open>Events of the docking view\<close>

lemma w_events_call: "w_events (call v c w) = w_events w"
  by (simp add: call_def)

lemma hide_events: "hide v indices w = (r, w') \<Longrightarrow> w_events w' = w_events w"
  by (induction indices arbitrary: w) (auto simp: w_events_call split: if_splits)

lemma add_ligands_events: "w_events (add_ligands v ext ps w) = w_events w"
  by (induction v ext ps w rule: add_ligands.induct)
     (simp_all add: add_component_def w_events_call)

lemma docking_on_selection_change_events:
  "docking_on_selection_change v fps change w = (r, w') \<Longrightarrow> w_events w' = w_events w"
  by (auto simp: docking_on_selection_change_def w_events_call Let_def
           split: if_splits prod.splits sum.splits dest: hide_events)

lemma docking_events:
  "w_events (snd (docking py_str pf pe fps ext labels affs w)) =
     w_events w @ [Print ''Docking modes'', Print ''(CID - mode)'',
       Display \<lparr>app_left_sidebar = pose_selector labels fps,
                app_center = Some (length (w_widgets w)),
                app_pane_widths = [1, 6, 1], app_height = None\<rparr>]"
proof -
  obtain r w' where run: "docking_on_selection_change (length (w_widgets w)) fps
       \<lparr>ch_name = ''value'', ch_new = Some 1, ch_old = None\<rparr>
       (emit (Display \<lparr>app_left_sidebar = pose_selector labels fps,
                app_center = Some (length (w_widgets w)),
                app_pane_widths = [1, 6, 1], app_height = None\<rparr>)
         (add_ligands (length (w_widgets w)) ext (zip fps (kcal_labels py_str affs))
           (call (length (w_widgets w)) (Add_component pf pe [])
             (snd (new_widget (NGLWidget [(''height'', ''860px'')])
                (emit (Print ''(CID - mode)'') (emit (Print ''Docking modes'') w))))))) = (r, w')"
    by (cases "docking_on_selection_change (length (w_widgets w)) fps
       \<lparr>ch_name = ''value'', ch_new = Some 1, ch_old = None\<rparr>
       (emit (Display \<lparr>app_left_sidebar = pose_selector labels fps,
                app_center = Some (length (w_widgets w)),
                app_pane_widths = [1, 6, 1], app_height = None\<rparr>)
         (add_ligands (length (w_widgets w)) ext (zip fps (kcal_labels py_str affs))
           (call (length (w_widgets w)) (Add_component pf pe [])
             (snd (new_widget (NGLWidget [(''height'', ''860px'')])
                (emit (Print ''(CID - mode)'') (emit (Print ''Docking modes'') w)))))))") auto
  have "w_events w' = w_events w @ [Print ''Docking modes'', Print ''(CID - mode)'',
       Display \<lparr>app_left_sidebar = pose_selector labels fps,
                app_center = Some (length (w_widgets w)),
                app_pane_widths = [1, 6, 1], app_height = None\<rparr>]"
    using docking_on_selection_change_events [OF run]
    by (simp add: emit_def add_ligands_events w_events_call new_widget_def)
  moreover have "snd (docking py_str pf pe fps ext labels affs w) = w'"
    using run
    by (cases r) (simp_all add: docking_def Let_def new_widget_def emit_def add_component_def)
  ultimately show ?thesis by simp
qed

subsection \<open>The overlay loops on well-formed dictionaries\<close>

lemma length_iterrows: "length (iterrows df_value records) = length records"
  by (simp add: iterrows_def)

lemma iterrows_lengths:
  "list_all (\<lambda>r. length r = n) records \<Longrightarrow> list_all (\<lambda>r. length r = n) (iterrows df_value records)"
  by (simp add: iterrows_def list_all_iff)

lemma iterrows_handed_back:
  "iterrows df_value records = map (handed_back df_value records) records"
proof -
  have "map (\<lambda>(j, c). df_value records j c) (zip [0 ..< length r] r) =
          map (\<lambda>j. df_value records j (r ! j)) [0 ..< length r]" for r
    by (rule nth_equalityI) simp_all
  then show ?thesis
    by (simp add: iterrows_def handed_back_def)
qed

lemma iterrows_Nil: "iterrows df_value [] = []"
  by (simp add: iterrows_def)

lemma series_get_cell:
  "Str key \<in> set columns \<Longrightarrow> length row = length columns \<Longrightarrow>
     series_get columns row key = Inr (cell columns row key)"
proof -
  assume k: "Str key \<in> set columns" and l: "length row = length columns"
  have "Str key \<in> fst ` set (zip columns row)"
    using k l by (metis map_fst_zip set_map)
  then have "map_of (zip columns row) (Str key) \<noteq> None"
    by (simp add: map_of_eq_None_iff)
  then show ?thesis
    by (auto simp: series_get_def cell_def)
qed

lemma draw_rows_ok:
  "list_all (\<lambda>r. length r = length columns) rows \<Longrightarrow>
   Str ''LIGCOO'' \<in> set columns \<Longrightarrow> Str ''PROTCOO'' \<in> set columns \<Longrightarrow>
   Str ''RESNR'' \<in> set columns \<Longrightarrow>
     draw_rows v columns color name rows res w =
       (Inr (res @ map (\<lambda>r. cell columns r ''RESNR'') rows),
        after_calls v
          (map (\<lambda>r. Shape_add_cylinder (cell columns r ''LIGCOO'') (cell columns r ''PROTCOO'')
                  color [0.1] name) rows) w)"
proof (induction rows arbitrary: res w)
  case Nil
  then show ?case by (simp add: after_calls_Nil)
next
  case (Cons r rows)
  then show ?case
    by (simp add: series_get_cell call_after_calls after_calls_twice)
qed

lemma draw_interactions_ok:
  "list_all entry_ok items \<Longrightarrow>
     draw_interactions df_value v items res w =
       (Inr (res @ concat (map (residues_of df_value) items)),
        after_calls v (concat (map (cylinders_of df_value) items)) w)"
proof (induction items arbitrary: res w)
  case Nil
  then show ?case by (simp add: after_calls_Nil)
next
  case (Cons entry rest)
  obtain t l where entry: "entry = (t, l)" by (cases entry)
  from Cons.prems have ok: "entry_ok (t, l)" and rest: "list_all entry_ok rest"
    by (simp_all add: entry)
  from ok have "t \<in> fst ` set color_map"
    by (simp add: entry_ok_def)
  then have "map_of color_map t \<noteq> None"
    by (simp add: map_of_eq_None_iff)
  then obtain color where color: "map_of color_map t = Some color"
    by auto
  from ok obtain header records where l: "l = header # records"
    by (cases l) (auto simp: entry_ok_def table_ok_def)
  show ?case
  proof (cases "records = []")
    case True
    then show ?thesis
      using Cons.IH [OF rest, of res w]
      by (simp add: entry l color color_map_lookup_def cylinders_of_def residues_of_def)
  next
    case False
    with ok l have t: "distinct header" "list_all (\<lambda>r. length r = length header) records"
      "Str ''LIGCOO'' \<in> set header" "Str ''PROTCOO'' \<in> set header" "Str ''RESNR'' \<in> set header"
      by (simp_all add: entry_ok_def table_ok_def)
    show ?thesis
      using False Cons.IH [OF rest]
      by (simp add: entry l color color_map_lookup_def cylinders_of_def residues_of_def
            DataFrame_from_records_def t
            draw_rows_ok [OF iterrows_lengths [OF t(2)] t(3-5)] after_calls_twice)
         (simp add: iterrows_handed_back comp_def)
  qed
qed

lemma draw_interactions_append:
  "draw_interactions df_value v (pre @ rest) res w =
     (case draw_interactions df_value v pre res w of
        (Inl e, w1) \<Rightarrow> (Inl e, w1)
      | (Inr res1, w1) \<Rightarrow> draw_interactions df_value v rest res1 w1)"
  by (induction df_value v pre res w rule: draw_interactions.induct)
     (auto split: sum.splits prod.splits list.splits)

lemma length_cylinders_of: "length (cylinders_of df_value entry) = length (snd entry) - 1"
  by (simp add: cylinders_of_def)

subsection \<open>The interactions handler, unfolded\<close>

lemma join_Cons: "join sep (t # us) = t @ concat (map (\<lambda>u. sep @ u) us)"
  by (induction us arbitrary: t) simp_all

lemma join_any_of: "join '' or '' ts = any_of ts"
  by (cases ts) (simp_all only: join_Cons any_of.simps join.simps)

lemma res_sele_selection:
  "res_sele py_str residues = residue_selection py_str ''not _H'' residues"
  by (simp add: res_sele_def residue_selection_def join_any_of)

lemma res_sele_nc_selection:
  "res_sele_nc py_str residues =
     residue_selection py_str ''((_O) or (_N) or (_S))'' residues"
  by (simp add: res_sele_nc_def residue_selection_def join_any_of)

lemma length_close_center: "length (w_widgets (close_center app w)) = length (w_widgets w)"
  by (simp add: close_center_def call_after_calls length_widgets_after_calls split: option.splits)

lemma events_close_center: "w_events (close_center app w) = w_events w"
  by (simp add: close_center_def call_after_calls w_events_after_calls split: option.splits)

lemma after_calls_fresh:
  "after_calls (length ws) cs \<lparr>w_widgets = ws @ [fresh_widget ds], w_events = evs\<rparr> =
     \<lparr>w_widgets = ws @ [fresh_widget (ds @ cs)], w_events = evs\<rparr>"
  by (simp add: after_calls_def fresh_widget_def)

lemma new_widget_fresh:
  "new_widget (NGLWidget [(''height'', ''860px''), (''default'', ''True''), (''gui'', ''True'')])
     \<lparr>w_widgets = ws, w_events = evs\<rparr> =
     (length ws, \<lparr>w_widgets = ws @ [fresh_widget []], w_events = evs\<rparr>)"
  by (simp add: new_widget_def fresh_widget_def)

lemma n_components_fresh:
  "n_components (fresh_widget cs) = length (filter is_add_component cs)"
  by (simp add: n_components_def fresh_widget_def)

lemma interactions_handler_staged:
  assumes "ch_name change = ''value''" and "ch_new change \<noteq> ch_old change"
      and "py_index fps (ch_new change) = Inr path"
      and "py_index affs (ch_new change) = Inr aff"
      and "py_index plips (ch_new change) = Inr items"
  shows "interactions_on_selection_change df_value py_str pf pe fps ext affs plips change (app, w) =
     (case draw_interactions df_value (length (w_widgets w)) items []
             \<lparr>w_widgets = w_widgets (close_center app w) @
                            [fresh_widget (pose_calls pf pe path ext aff)],
              w_events = w_events w @ [Sleep 1, Sleep 1]\<rparr> of
        (Inl e, w10) \<Rightarrow> (Inl e, app\<lparr>app_center := Some (length (w_widgets w))\<rparr>, w10)
      | (Inr res, w10) \<Rightarrow>
          (Inr (), app\<lparr>app_center := Some (length (w_widgets w))\<rparr>,
           after_calls (length (w_widgets w)) (highlight_calls py_str res) w10))"
proof -
  obtain ws evs where w1: "close_center app w = \<lparr>w_widgets = ws, w_events = evs\<rparr>"
    by (cases "close_center app w") auto
  have ws: "length ws = length (w_widgets w)" and evs: "evs = w_events w"
    using length_close_center [of app w] events_close_center [of app w] by (simp_all add: w1)
  show ?thesis
    using assms
    by (simp add: interactions_on_selection_change_def Let_def call_after_calls
          close_center_def [symmetric] w1 new_widget_fresh add_component_def
          n_components_fresh after_calls_fresh after_calls_twice emit_def
          pose_calls_def highlight_calls_def res_sele_selection res_sele_nc_selection
          ws [symmetric] evs)
       (auto simp: Let_def call_after_calls after_calls_twice n_components_fresh
          ws [symmetric] highlight_calls_def res_sele_selection res_sele_nc_selection
          split: prod.splits sum.splits)
qed

lemma interactions_handler_unfolded:
  assumes "ch_name change = ''value''" and "ch_new change \<noteq> ch_old change"
  shows "interactions_on_selection_change df_value py_str pf pe fps ext affs plips change (app, w) =
     (case py_index fps (ch_new change) of
        Inl e \<Rightarrow>
          (Inl e, app\<lparr>app_center := Some (length (w_widgets w))\<rparr>,
           staged app w (take 2 (pose_calls pf pe [] ext [])) [Sleep 1])
      | Inr path \<Rightarrow>
          (case py_index affs (ch_new change) of
             Inl e \<Rightarrow>
               (Inl e, app\<lparr>app_center := Some (length (w_widgets w))\<rparr>,
                staged app w (take 3 (pose_calls pf pe path ext [])) [Sleep 1])
           | Inr aff \<Rightarrow>
               (case py_index plips (ch_new change) of
                  Inl e \<Rightarrow>
                    (Inl e, app\<lparr>app_center := Some (length (w_widgets w))\<rparr>,
                     staged app w (pose_calls pf pe path ext aff) [Sleep 1, Sleep 1])
                | Inr items \<Rightarrow>
                    (case draw_interactions df_value (length (w_widgets w)) items []
                            (staged app w (pose_calls pf pe path ext aff) [Sleep 1, Sleep 1]) of
                       (Inl e, w10) \<Rightarrow>
                         (Inl e, app\<lparr>app_center := Some (length (w_widgets w))\<rparr>, w10)
                     | (Inr res, w10) \<Rightarrow>
                         (Inr (), app\<lparr>app_center := Some (length (w_widgets w))\<rparr>,
                          after_calls (length (w_widgets w)) (highlight_calls py_str res) w10)))))"
proof -
  obtain ws evs where w1: "close_center app w = \<lparr>w_widgets = ws, w_events = evs\<rparr>"
    by (cases "close_center app w") auto
  have ws: "length ws = length (w_widgets w)" and evs: "evs = w_events w"
    using length_close_center [of app w] events_close_center [of app w] by (simp_all add: w1)
  note unfold = interactions_on_selection_change_def Let_def call_after_calls
          close_center_def [symmetric] w1 new_widget_fresh add_component_def
          n_components_fresh after_calls_fresh after_calls_twice emit_def
          pose_calls_def ws [symmetric] evs staged_def
  show ?thesis
  proof (cases "py_index fps (ch_new change)")
    case (Inl e)
    then show ?thesis using assms by (simp add: unfold)
  next
    case path: (Inr path)
    show ?thesis
    proof (cases "py_index affs (ch_new change)")
      case (Inl e)
      then show ?thesis using assms path by (simp add: unfold)
    next
      case aff: (Inr aff)
      show ?thesis
      proof (cases "py_index plips (ch_new change)")
        case (Inl e)
        then show ?thesis using assms path aff by (simp add: unfold)
      next
        case (Inr items)
        then show ?thesis
          using interactions_handler_staged [OF assms path aff Inr]
          by (simp add: path aff staged_def)
      qed
    qed
  qed
qed

lemma after_calls_staged:
  "after_calls (length (w_widgets w)) cs (staged app w ds evs) = staged app w (ds @ cs) evs"
  using after_calls_fresh [of "w_widgets (close_center app w)" cs ds "w_events w @ evs"]
  by (simp add: staged_def length_close_center)

lemma staged_widget:
  "w_widgets (staged app w cs evs) ! length (w_widgets w) = fresh_widget cs"
  using nth_append_length [of "w_widgets (close_center app w)" "fresh_widget cs" "[]"]
  by (simp add: staged_def length_close_center)

lemma staged_old_widget:
  "c < length (w_widgets w) \<Longrightarrow>
     w_widgets (staged app w cs evs) ! c = w_widgets (close_center app w) ! c"
  by (simp add: staged_def nth_append length_close_center)

lemma length_staged: "length (w_widgets (staged app w cs evs)) = Suc (length (w_widgets w))"
  by (simp add: staged_def length_close_center)

lemma close_center_widget:
  "c < length (w_widgets w) \<Longrightarrow>
     w_widgets (close_center app w) ! c =
       (if app_center app = Some c
        then (w_widgets w ! c)\<lparr>ngl_calls := ngl_calls (w_widgets w ! c) @ [Close]\<rparr>
        else w_widgets w ! c)"
  by (cases "app_center app") (auto simp: close_center_def call_def nth_list_update)

subsection \<open>What the loops and the handlers can touch\<close>

lemma draw_rows_frame:
  "draw_rows v columns color name rows res w = (r, w') \<Longrightarrow>
     \<exists>cs. w' = after_calls v cs w \<and> list_all (\<lambda>c. cylinder_name c = Some name) cs"
proof (induction rows arbitrary: res w)
  case Nil
  then show ?case by (auto simp: after_calls_Nil intro: exI [of _ "[]"])
next
  case (Cons row rows)
  show ?case
  proof (cases "series_get columns row ''LIGCOO''")
    case (Inl e)
    with Cons.prems show ?thesis by (auto simp: after_calls_Nil intro: exI [of _ "[]"])
  next
    case lig: (Inr lig)
    show ?thesis
    proof (cases "series_get columns row ''PROTCOO''")
      case (Inl e)
      with Cons.prems lig show ?thesis by (auto simp: after_calls_Nil intro: exI [of _ "[]"])
    next
      case prot: (Inr prot)
      let ?c = "Shape_add_cylinder lig prot color [0.1] name"
      show ?thesis
      proof (cases "series_get columns row ''RESNR''")
        case (Inl e)
        with Cons.prems lig prot have "w' = after_calls v [?c] w"
          by (auto simp: call_after_calls)
        then show ?thesis by (intro exI [of _ "[?c]"]) simp
      next
        case (Inr resnr)
        with Cons.prems lig prot
        have "draw_rows v columns color name rows (res @ [resnr]) (after_calls v [?c] w) = (r, w')"
          by (simp add: call_after_calls)
        from Cons.IH [OF this] obtain cs where
          "w' = after_calls v cs (after_calls v [?c] w)"
          "list_all (\<lambda>c. cylinder_name c = Some name) cs" by blast
        then show ?thesis
          by (intro exI [of _ "?c # cs"]) (simp add: after_calls_twice)
      qed
    qed
  qed
qed

lemma draw_interactions_frame:
  "draw_interactions df_value v items res w = (r, w') \<Longrightarrow>
     \<exists>cs. w' = after_calls v cs w \<and> list_all drawn_ok cs"
proof (induction items arbitrary: res w)
  case Nil
  then show ?case by (auto simp: after_calls_Nil intro: exI [of _ "[]"])
next
  case (Cons entry items)
  obtain t l where entry: "entry = (t, l)" by (cases entry)
  have none: "\<exists>cs. w = after_calls v cs w \<and> list_all drawn_ok cs"
    by (auto simp: after_calls_Nil intro: exI [of _ "[]"])
  show ?case
  proof (cases "map_of color_map t")
    case None
    with Cons.prems none show ?thesis by (simp add: entry color_map_lookup_def)
  next
    case (Some color)
    then have ok: "\<And>c. cylinder_name c = Some t \<Longrightarrow> drawn_ok c"
      by (simp add: drawn_ok_def)
    show ?thesis
    proof (cases "length l = 1")
      case True
      with Cons.prems Some show ?thesis
        using Cons.IH by (simp add: entry color_map_lookup_def)
    next
      case False
      show ?thesis
      proof (cases l)
        case Nil
        with Cons.prems Some none show ?thesis by (simp add: entry color_map_lookup_def)
      next
        case l: (Cons header records)
        show ?thesis
        proof (cases "DataFrame_from_records df_value records header")
          case (Inl e)
          with Cons.prems Some none False l show ?thesis
            by (simp add: entry color_map_lookup_def)
        next
          case (Inr df)
          obtain columns rows where df: "df = (columns, rows)" by (cases df)
          obtain r1 w1 where rows: "draw_rows v columns color t rows res w = (r1, w1)"
            by (cases "draw_rows v columns color t rows res w")
          from draw_rows_frame [OF rows] obtain cs1 where
            cs1: "w1 = after_calls v cs1 w" "list_all (\<lambda>c. cylinder_name c = Some t) cs1"
            by blast
          then have cs1_ok: "list_all drawn_ok cs1"
            using ok by (simp add: list_all_iff)
          show ?thesis
          proof (cases r1)
            case (Inl e)
            with Cons.prems Some False l Inr df rows have "w' = w1"
              by (simp add: entry color_map_lookup_def)
            with cs1 cs1_ok show ?thesis by blast
          next
            case r1: (Inr res1)
            with Cons.prems Some False l Inr df rows
            have "draw_interactions df_value v items res1 w1 = (r, w')"
              by (simp add: entry color_map_lookup_def)
            from Cons.IH [OF this] obtain cs where
              "w' = after_calls v cs w1" "list_all drawn_ok cs" by blast
            with cs1 cs1_ok show ?thesis
              by (intro exI [of _ "cs1 @ cs"]) (simp add: after_calls_twice)
          qed
        qed
      qed
    qed
  qed
qed

lemma draw_interactions_unknown_fails:
  "(t, l) \<in> set items \<Longrightarrow> map_of color_map t = None \<Longrightarrow>
     \<exists>e. fst (draw_interactions df_value v items res w) = Inl e"
proof (induction items arbitrary: res w)
  case Nil
  then show ?case by simp
next
  case (Cons entry items)
  then show ?case
    by (cases entry)
       (auto simp: color_map_lookup_def split: sum.splits prod.splits list.splits option.splits)
qed

lemma unknown_type_lookup:
  "t \<notin> fixed_names \<Longrightarrow> map_of color_map t = None"
  by (simp add: color_map_def fixed_names_def)

lemma pose_calls_no_cylinder:
  "list_all (\<lambda>c. cylinder_name c = None) (pose_calls pf pe path ext aff)"
  by (simp add: pose_calls_def)

lemma hide_frame:
  "hide v indices w = (r, w') \<Longrightarrow>
     \<exists>cs. w' = after_calls v cs w \<and> filter is_add_component cs = [] \<and> Close \<notin> set cs"
proof (induction indices arbitrary: w)
  case Nil
  then show ?case by (auto simp: after_calls_Nil intro: exI [of _ "[]"])
next
  case (Cons i indices)
  show ?case
  proof (cases "i < n_components (w_widgets w ! v)")
    case True
    with Cons.prems
    have "hide v indices (after_calls v [Set_visibility False i] w) = (r, w')"
      by (simp add: call_after_calls)
    from Cons.IH [OF this] obtain cs where
      "w' = after_calls v cs (after_calls v [Set_visibility False i] w)"
      "filter is_add_component cs = []" "Close \<notin> set cs"
      by blast
    then show ?thesis
      by (intro exI [of _ "Set_visibility False i # cs"]) (simp add: after_calls_twice)
  next
    case False
    with Cons.prems show ?thesis by (auto simp: after_calls_Nil intro: exI [of _ "[]"])
  qed
qed

lemma docking_handler_frame:
  assumes "docking_on_selection_change viewer fps change w = (r, w')"
  shows "\<exists>cs. w' = after_calls viewer cs w \<and> filter is_add_component cs = [] \<and> Close \<notin> set cs"
proof (cases "ch_name change = ''value'' \<and> ch_new change \<noteq> ch_old change")
  case False
  with assms have "w' = w" by (auto simp: docking_on_selection_change_def)
  then show ?thesis by (auto simp: after_calls_Nil intro: exI [of _ "[]"])
next
  case True
  obtain r1 w1 where h: "hide viewer [1 ..< length fps + 1] w = (r1, w1)"
    by (cases "hide viewer [1 ..< length fps + 1] w")
  from hide_frame [OF h] obtain cs1 where
    cs1: "w1 = after_calls viewer cs1 w" "filter is_add_component cs1 = []" "Close \<notin> set cs1"
    by blast
  show ?thesis
  proof (cases r1)
    case (Inl e)
    with assms True h have "w' = w1"
      unfolding docking_on_selection_change_def by simp
    with cs1 show ?thesis by blast
  next
    case r1: (Inr u)
    show ?thesis
    proof (cases "getattr_component viewer (ch_new change) w1")
      case (Inl e)
      with assms True h r1 have "w' = w1"
        unfolding docking_on_selection_change_def by simp
      with cs1 show ?thesis by blast
    next
      case (Inr component)
      let ?cs = "[Set_visibility True component, Comp_center component 500,
                  Execute_js_code (RESIDUES_AROUND (int component) 6)]"
      from assms True h r1 Inr have "w' = after_calls viewer ?cs w1"
        unfolding docking_on_selection_change_def
        by (simp add: call_after_calls after_calls_twice)
      with cs1 show ?thesis
        by (intro exI [of _ "cs1 @ ?cs"]) (simp add: after_calls_twice)
    qed
  qed
qed

lemma interactions_handler_frame:
  assumes eff: "ch_name change = ''value''" "ch_new change \<noteq> ch_old change"
      and run: "interactions_on_selection_change df_value py_str pf pe fps ext affs plips change (app, w)
                  = (r, app', w')"
  shows "app' = app\<lparr>app_center := Some (length (w_widgets w))\<rparr> \<and>
         (\<exists>cs evs. w' = staged app w cs evs \<and> Close \<notin> set cs)"
proof -
  note u = interactions_handler_unfolded [OF eff, of df_value py_str pf pe fps ext affs plips app w]
  have pc: "Close \<notin> set (pose_calls a b c d e)" for a b c d e
    by (simp add: pose_calls_def)
  show ?thesis
  proof (cases "py_index fps (ch_new change)")
    case (Inl e)
    with run u show ?thesis
      by (auto simp: pose_calls_def)
  next
    case path: (Inr path)
    show ?thesis
    proof (cases "py_index affs (ch_new change)")
      case (Inl e)
      with run u path show ?thesis by (auto simp: pose_calls_def)
    next
      case aff: (Inr aff)
      show ?thesis
      proof (cases "py_index plips (ch_new change)")
        case (Inl e)
        with run u path aff show ?thesis by (auto simp: pose_calls_def)
      next
        case items: (Inr items)
        let ?W = "staged app w (pose_calls pf pe path ext aff) [Sleep 1, Sleep 1]"
        obtain r1 w10 where d: "draw_interactions df_value (length (w_widgets w)) items [] ?W = (r1, w10)"
          by (cases "draw_interactions df_value (length (w_widgets w)) items [] ?W")
        from draw_interactions_frame [OF d] obtain cs where
          cs: "w10 = after_calls (length (w_widgets w)) cs ?W" "list_all drawn_ok cs" by blast
        have nc: "Close \<notin> set cs"
          using cs(2) by (auto simp: list_all_iff drawn_ok_def)
        have w10: "w10 = staged app w (pose_calls pf pe path ext aff @ cs) [Sleep 1, Sleep 1]"
          by (simp only: cs(1) after_calls_staged)
        have run': "(r, app', w') =
           (case (r1, w10) of
             (Inl e, w10) \<Rightarrow> (Inl e, app\<lparr>app_center := Some (length (w_widgets w))\<rparr>, w10)
           | (Inr res, w10) \<Rightarrow>
               (Inr (), app\<lparr>app_center := Some (length (w_widgets w))\<rparr>,
                after_calls (length (w_widgets w)) (highlight_calls py_str res) w10))"
          unfolding run [symmetric] u path aff items d [symmetric] by simp
        show ?thesis
        proof (cases r1)
          case (Inl e)
          with run' have "app' = app\<lparr>app_center := Some (length (w_widgets w))\<rparr>" "w' = w10"
            by simp_all
          with w10 nc pc show ?thesis by auto
        next
          case (Inr res)
          with run' have "app' = app\<lparr>app_center := Some (length (w_widgets w))\<rparr>"
            "w' = after_calls (length (w_widgets w)) (highlight_calls py_str res) w10"
            by simp_all
          then have "app' = app\<lparr>app_center := Some (length (w_widgets w))\<rparr>"
            "w' = staged app w ((pose_calls pf pe path ext aff @ cs) @ highlight_calls py_str res)
                    [Sleep 1, Sleep 1]"
            by (simp_all only: w10 after_calls_staged)
          moreover have "Close \<notin> set ((pose_calls pf pe path ext aff @ cs) @
                                     highlight_calls py_str res)"
            using nc pc by (simp add: highlight_calls_def)
          ultimately show ?thesis by blast
        qed
      qed
    qed
  qed
qed

lemma interactions_handler_sidebar:
  "interactions_on_selection_change df_value py_str pf pe fps ext affs plips change (app, w)
     = (r, app', w') \<Longrightarrow> app_left_sidebar app' = app_left_sidebar app"
proof (cases "ch_name change = ''value'' \<and> ch_new change \<noteq> ch_old change")
  case False
  assume "interactions_on_selection_change df_value py_str pf pe fps ext affs plips change (app, w)
     = (r, app', w')"
  with False show ?thesis
    by (auto simp: interactions_on_selection_change_def)
next
  case True
  assume run: "interactions_on_selection_change df_value py_str pf pe fps ext affs plips change (app, w)
     = (r, app', w')"
  from True have eff: "ch_name change = ''value''" "ch_new change \<noteq> ch_old change"
    by simp_all
  from interactions_handler_frame [OF eff run] show ?thesis by auto
qed

subsection \<open>The state the docking view starts from\<close>

lemma add_ligands_frame:
  "\<exists>cs. add_ligands v ext ps w = after_calls v cs w \<and>
        length (filter is_add_component cs) = length ps \<and> Close \<notin> set cs"
proof (induction ps arbitrary: w)
  case Nil
  show ?case by (auto simp: after_calls_Nil intro: exI [of _ "[]"])
next
  case (Cons p ps)
  obtain path label where p: "p = (path, label)" by (cases p)
  let ?cs = "[Add_component path ext [],
              Comp_add_label (n_components (w_widgets w ! v)) [label] label_kwargs]"
  from Cons.IH [of "after_calls v ?cs w"] obtain cs where
    cs: "add_ligands v ext ps (after_calls v ?cs w) = after_calls v cs (after_calls v ?cs w)"
    "length (filter is_add_component cs) = length ps" "Close \<notin> set cs" by blast
  have "add_ligands v ext (p # ps) w = after_calls v (?cs @ cs) w"
    by (simp add: p add_component_def call_after_calls after_calls_twice cs(1))
  then show ?case
    using cs(2,3) by (intro exI [of _ "?cs @ cs"]) simp
qed

lemma docking_state:
  "length (w_widgets (snd (docking py_str pf pe fps ext labels affs w))) =
     Suc (length (w_widgets w))
   \<and> n_components (w_widgets (snd (docking py_str pf pe fps ext labels affs w)) !
        length (w_widgets w)) = Suc (min (length fps) (length affs))"
proof -
  let ?v = "length (w_widgets w)"
  let ?w2 = "snd (new_widget (NGLWidget [(''height'', ''860px'')])
                (emit (Print ''(CID - mode)'') (emit (Print ''Docking modes'') w)))"
  let ?w3 = "after_calls ?v [Add_component pf pe []] ?w2"
  let ?ps = "zip fps (kcal_labels py_str affs)"
  let ?D = "Display \<lparr>app_left_sidebar = pose_selector labels fps, app_center = Some ?v,
                      app_pane_widths = [1, 6, 1], app_height = None\<rparr>"
  let ?raw = "emit ?D (add_ligands ?v ext ?ps (call ?v (Add_component pf pe []) ?w2))"
  have v2: "?v < length (w_widgets ?w2)" and l2: "length (w_widgets ?w2) = Suc ?v"
    and n2: "n_components (w_widgets ?w2 ! ?v) = 0"
    by (simp_all add: new_widget_def emit_def n_components_def)
  obtain cs where cs: "add_ligands ?v ext ?ps ?w3 = after_calls ?v cs ?w3"
    "length (filter is_add_component cs) = length ?ps"
    using add_ligands_frame [of ?v ext ?ps ?w3] by blast
  let ?w4 = "after_calls ?v ([Add_component pf pe []] @ cs) ?w2"
  have raw: "?raw = emit ?D ?w4"
    by (simp only: call_after_calls cs(1) after_calls_twice)
  obtain r w6 where run: "docking_on_selection_change ?v fps
       \<lparr>ch_name = ''value'', ch_new = Some 1, ch_old = None\<rparr> ?raw = (r, w6)"
    by (cases "docking_on_selection_change ?v fps
       \<lparr>ch_name = ''value'', ch_new = Some 1, ch_old = None\<rparr> ?raw")
  have res: "snd (docking py_str pf pe fps ext labels affs w) = w6"
    using run
    by (cases r) (simp_all add: docking_def Let_def new_widget_def emit_def add_component_def)
  from docking_handler_frame [OF run] obtain cs' where
    cs': "w6 = after_calls ?v cs' ?raw" "filter is_add_component cs' = []" by blast
  have e: "after_calls ?v cs' (emit ?D ?w4) = emit ?D (after_calls ?v cs' ?w4)"
    by (simp add: emit_def after_calls_def)
  have w6: "w6 = emit ?D (after_calls ?v ([Add_component pf pe []] @ cs @ cs') ?w2)"
    by (simp only: cs'(1) raw e after_calls_twice append_assoc)
  have "length (w_widgets w6) = Suc ?v"
    by (simp add: w6 emit_def length_widgets_after_calls new_widget_def)
  moreover have "n_components (w_widgets w6 ! ?v) = Suc (min (length fps) (length affs))"
    using n_components_after_calls [OF v2, of "[Add_component pf pe []] @ cs @ cs'"]
    by (simp add: w6 emit_def new_widget_def n_components_def cs(2) cs'(2) kcal_labels_def)
  ultimately show ?thesis
    by (simp add: res)
qed

subsection \<open>The interactions handler on a well-formed dictionary\<close>

lemma interactions_handler_ok:
  assumes name: "ch_name change = ''value''"
      and diff: "ch_new change \<noteq> ch_old change"
      and path: "py_index fps (ch_new change) = Inr path"
      and aff: "py_index affs (ch_new change) = Inr aff"
      and items: "py_index plips (ch_new change) = Inr items"
      and ok: "list_all entry_ok items"
  shows "interactions_on_selection_change df_value py_str pf pe fps ext affs plips change (app, w) =
           (Inr (), app\<lparr>app_center := Some (length (w_widgets w))\<rparr>,
            staged app w
              (pose_calls pf pe path ext aff @ concat (map (cylinders_of df_value) items) @
               highlight_calls py_str (concat (map (residues_of df_value) items)))
              [Sleep 1, Sleep 1])"
  by (simp add: interactions_handler_unfolded [OF name diff] path aff items
        draw_interactions_ok [OF ok] after_calls_staged)

subsection \<open>The example session\<close>

lemma example_kcal_eq: "kcal_labels str_example example_affinities = example_kcal"
  by code_simp

lemma example_docking_viewer: "0 < length (w_widgets (snd example_docking))"
  using docking_state [of str_example "''rec.pdb''" "''pdb''" example_filepaths "''pdbqt''"
          example_labels example_affinities w_empty]
  by (simp add: example_docking_def)

lemma example_docking_components:
  "length example_filepaths < n_components (w_widgets (snd example_docking) ! 0)"
  using docking_state [of str_example "''rec.pdb''" "''pdb''" example_filepaths "''pdbqt''"
          example_labels example_affinities w_empty]
  by (simp add: example_docking_def w_empty_def example_filepaths_def example_affinities_def)

lemma example_lengths:
  "length example_filepaths = 3" "length example_labels = 3" "length example_kcal = 3"
  "length example_plip_dicts = 3"
  by (simp_all add: example_filepaths_def example_labels_def example_kcal_def
        example_plip_dicts_def)

lemma example_index0:
  "py_index example_filepaths (Some 0) = Inr ''pose1.pdbqt''"
  "py_index example_kcal (Some 0) = Inr ''-9 kcal/mol''"
  "py_index example_plip_dicts (Some 0) = Inr example_dict1"
  by (simp_all add: py_index_def example_filepaths_def example_kcal_def example_plip_dicts_def)

lemma example_index2:
  "py_index example_filepaths (Some 2) = Inr ''pose3.pdbqt''"
  "py_index example_kcal (Some 2) = Inr ''-7 kcal/mol''"
  "py_index example_plip_dicts (Some 2) = Inr example_dict3"
  by (simp_all add: py_index_def example_filepaths_def example_kcal_def example_plip_dicts_def)

lemma example_index3: "py_index example_filepaths (Some 3) = Inl IndexError"
  by (simp add: py_index_def example_filepaths_def)

lemma example_header_ok:
  "distinct example_header" "length example_header = 4"
  "Str ''LIGCOO'' \<in> set example_header" "Str ''PROTCOO'' \<in> set example_header"
  "Str ''RESNR'' \<in> set example_header"
  by (simp_all add: example_header_def)

lemma example_types_ok:
  "''hydrophobic'' \<in> fst ` set color_map" "''hbond'' \<in> fst ` set color_map"
  "''saltbridge'' \<in> fst ` set color_map"
  by (simp_all add: color_map_def)

lemma example_dicts_ok:
  "list_all entry_ok example_dict1" "list_all entry_ok example_dict2"
  "list_all entry_ok example_dict3"
  by (simp_all add: example_dict1_def example_dict2_def example_dict3_def entry_ok_def
        table_ok_def example_header_ok example_types_ok)

lemma example_interactions_eq:
  "example_interactions =
     (Inr example_app1,
      staged example_app0 (emit (Plt_show (take (2 * 4) color_map)) w_empty)
        (pose_calls ''rec.pdb'' ''pdb'' ''pose1.pdbqt'' ''pdbqt'' ''-9 kcal/mol'' @
         concat (map (cylinders_of example_value) example_dict1) @
         highlight_calls str_example (concat (map (residues_of example_value) example_dict1)))
        [Sleep 1, Sleep 1])"
proof -
  have "interactions_on_selection_change example_value str_example ''rec.pdb'' ''pdb'' example_filepaths
          ''pdbqt'' example_kcal example_plip_dicts
          \<lparr>ch_name = ''value'', ch_new = Some 0, ch_old = None\<rparr>
          (example_app0, emit (Plt_show (take (2 * 4) color_map)) w_empty) =
        (Inr (), example_app0\<lparr>app_center :=
                   Some (length (w_widgets (emit (Plt_show (take (2 * 4) color_map)) w_empty)))\<rparr>,
         staged example_app0 (emit (Plt_show (take (2 * 4) color_map)) w_empty)
           (pose_calls ''rec.pdb'' ''pdb'' ''pose1.pdbqt'' ''pdbqt'' ''-9 kcal/mol'' @
            concat (map (cylinders_of example_value) example_dict1) @
            highlight_calls str_example (concat (map (residues_of example_value) example_dict1)))
           [Sleep 1, Sleep 1])"
    by (rule interactions_handler_ok) (simp_all add: example_index0 example_dicts_ok)
  moreover have "length (w_widgets (emit (Plt_show (take (2 * 4) color_map)) w_empty)) = 0"
    by (simp add: emit_def w_empty_def)
  ultimately show ?thesis
    unfolding example_interactions_def interactions_def Let_def example_kcal_eq
      example_app0_def [symmetric] example_app1_def
    by simp
qed

lemma example_world1_length: "length (w_widgets (snd example_interactions)) = 1"
  by (simp add: example_interactions_eq length_staged emit_def w_empty_def)

lemma example_unknown_prefix_ok:
  "list_all entry_ok
     [(''saltbridge'',
        [example_header,
         [Num 12, Str ''LYS'', Tup [Num 0, Num 0, Num 1], Tup [Num 3, Num 3, Num 3]]])]"
  by (simp add: entry_ok_def table_ok_def example_header_ok example_types_ok)

lemma covalent_not_fixed: "''covalent'' \<notin> fixed_names"
  by (simp add: fixed_names_def)

lemma hbond_fixed: "''hbond'' \<in> fixed_names"
  by (simp add: fixed_names_def)

lemma cylinders_not_close: "Close \<notin> set (cylinders_of df_value entry)"
  by (auto simp: cylinders_of_def)

lemma example_world1_open: "\<not> is_closed (w_widgets (snd example_interactions) ! 0)"
proof -
  have "length (w_widgets (emit (Plt_show (take (2 * 4) color_map)) w_empty)) = 0"
    by (simp add: emit_def w_empty_def)
  from staged_widget [of example_app0 "emit (Plt_show (take (2 * 4) color_map)) w_empty",
      unfolded this]
  show ?thesis
    by (simp add: example_interactions_eq is_closed_def fresh_widget_def pose_calls_def
          highlight_calls_def cylinders_not_close)
qed

lemma example_select_second:
  "example_handler \<lparr>ch_name = ''value'', ch_new = Some 2, ch_old = Some 1\<rparr>
     (example_app1, snd example_interactions) =
     (Inr (), example_app1\<lparr>app_center := Some 1\<rparr>,
      staged example_app1 (snd example_interactions)
        (pose_calls ''rec.pdb'' ''pdb'' ''pose3.pdbqt'' ''pdbqt'' ''-7 kcal/mol'' @
         concat (map (cylinders_of example_value) example_dict3) @
         highlight_calls str_example (concat (map (residues_of example_value) example_dict3)))
        [Sleep 1, Sleep 1])"
proof -
  let ?ch = "\<lparr>ch_name = ''value'', ch_new = Some 2, ch_old = Some 1\<rparr>"
  have "interactions_on_selection_change example_value str_example ''rec.pdb'' ''pdb'' example_filepaths
          ''pdbqt'' example_kcal example_plip_dicts ?ch
          (example_app1, snd example_interactions) =
        (Inr (), example_app1\<lparr>app_center := Some (length (w_widgets (snd example_interactions)))\<rparr>,
         staged example_app1 (snd example_interactions)
           (pose_calls ''rec.pdb'' ''pdb'' ''pose3.pdbqt'' ''pdbqt'' ''-7 kcal/mol'' @
            concat (map (cylinders_of example_value) example_dict3) @
            highlight_calls str_example (concat (map (residues_of example_value) example_dict3)))
           [Sleep 1, Sleep 1])"
    by (rule interactions_handler_ok) (simp_all add: example_index2 example_dicts_ok)
  then show ?thesis
    by (simp only: example_handler_def example_world1_length)
qed

lemma example_select_third:
  "fst (example_handler \<lparr>ch_name = ''value'', ch_new = Some 3, ch_old = Some 1\<rparr>
     (example_app1, snd example_interactions)) = Inl IndexError"
  by (simp add: example_handler_def interactions_handler_unfolded example_index3)

lemma example_residue_strings: "str_example (Num 104) = ''104''" "str_example (Num 87) = ''87''"
  by code_simp+

lemma example_handed_back: "length record = 4 \<Longrightarrow> handed_back example_value records record = record"
  by (rule nth_equalityI) (simp_all add: handed_back_def example_value_def)

lemma example_cylinders1:
  "concat (map (cylinders_of example_value) example_dict1) =
     [Shape_add_cylinder (Tup [Num 1, Num 2, Num 3]) (Tup [Num 4, Num 5, Num 6])
        [0.90, 0.10, 0.29] [0.1] ''hydrophobic'',
      Shape_add_cylinder (Tup [Num 1, Num 0, Num 3]) (Tup [Num 2, Num 2, Num 2])
        [0.90, 0.10, 0.29] [0.1] ''hydrophobic'']"
  by (simp add: example_dict1_def cylinders_of_def example_handed_back cell_def
        example_header_def color_map_def)

lemma example_residues1:
  "concat (map (residues_of example_value) example_dict1) = [Num 104, Num 87]"
  by (simp add: example_dict1_def residues_of_def example_handed_back cell_def
        example_header_def)

lemma example_highlights1:
  "highlight_calls str_example [Num 104, Num 87] =
     [Comp_add_ball_and_stick 0 ''(104 and not _H) or (87 and not _H)'' ''chainindex'' 1.5,
      Comp_add_ball_and_stick 0
        ''(104 and ((_O) or (_N) or (_S))) or (87 and ((_O) or (_N) or (_S)))''
        ''element'' 1.5]"
  unfolding highlight_calls_def residue_selection_def
  by (simp add: example_residue_strings del: str_example.simps)

section \<open>The claims\<close>

text \<open>
  C1. In the example session with three poses the selection list pairs the labels with
  the values 1, 2, 3, while the handler uses the value as a position counted from 0.
  Picking the second label (value 2) makes the handler load the third pose file with the
  third affinity and the third dictionary, not the second; picking the third label
  (value 3) ends in an \<open>IndexError\<close>.
\<close>

theorem interactions_selection_off_by_one:
  "example_interactions = (Inr example_app1, snd example_interactions)
   \<and> app_left_sidebar example_app1 = pose_selector example_labels example_filepaths
   \<and> example_labels ! 1 = ''1 - 2'' \<and> example_filepaths ! 1 = ''pose2.pdbqt''
   \<and> example_kcal ! 1 = ''-8 kcal/mol''
   \<and> user_selects (app_left_sidebar example_app1) 1 (Some 1) =
       Some \<lparr>ch_name = ''value'', ch_new = Some 2, ch_old = Some 1\<rparr>
   \<and> example_handler \<lparr>ch_name = ''value'', ch_new = Some 2, ch_old = Some 1\<rparr>
       (example_app1, snd example_interactions) =
       (Inr (), example_app1\<lparr>app_center := Some 1\<rparr>,
        staged example_app1 (snd example_interactions)
          (pose_calls ''rec.pdb'' ''pdb'' ''pose3.pdbqt'' ''pdbqt'' ''-7 kcal/mol'' @
           concat (map (cylinders_of example_value) example_dict3) @
           highlight_calls str_example (concat (map (residues_of example_value) example_dict3)))
          [Sleep 1, Sleep 1])
   \<and> user_selects (app_left_sidebar example_app1) 2 (Some 1) =
       Some \<lparr>ch_name = ''value'', ch_new = Some 3, ch_old = Some 1\<rparr>
   \<and> fst (example_handler \<lparr>ch_name = ''value'', ch_new = Some 3, ch_old = Some 1\<rparr>
       (example_app1, snd example_interactions)) = Inl IndexError"
proof -
  have s: "app_left_sidebar example_app1 = pose_selector example_labels example_filepaths"
    by (simp add: example_app1_def example_app0_def)
  have o: "sel_options (pose_selector example_labels example_filepaths) =
             [(''1 - 1'', 1), (''1 - 2'', 2), (''1 - 3'', 3)]"
    by (simp add: pose_selector_def enumerate_from_1_def example_labels_def upt_rec)
  have u1: "user_selects (app_left_sidebar example_app1) 1 (Some 1) =
       Some \<lparr>ch_name = ''value'', ch_new = Some 2, ch_old = Some 1\<rparr>"
   and u2: "user_selects (app_left_sidebar example_app1) 2 (Some 1) =
       Some \<lparr>ch_name = ''value'', ch_new = Some 3, ch_old = Some 1\<rparr>"
    by (simp_all add: user_selects_def s o)
  have d: "example_labels ! 1 = ''1 - 2''" "example_filepaths ! 1 = ''pose2.pdbqt''"
    "example_kcal ! 1 = ''-8 kcal/mol''"
    by (simp_all add: example_labels_def example_filepaths_def example_kcal_def)
  have e: "example_interactions = (Inr example_app1, snd example_interactions)"
    by (simp add: example_interactions_eq)
  show ?thesis
    using e s d u1 u2 example_select_second example_select_third
    by (intro conjI) assumption+
qed

text \<open>
  C2. For the pose at the selected index, with a dictionary whose entries are types of the
  color table with well-formed tables, the interactions handler completes and the new
  widget has received, in this order: the calls that load the protein and the pose; one
  cylinder per record of each entry, in the dictionary's order, between the record's
  ligand and protein coordinates and in the color the table assigns to the entry's
  type; and then the two calls on the protein component whose selections name the
  residues of exactly those records, in the same order, joined by \<open>or\<close>. The number of
  cylinders is the number of records. Coordinates and residues are the values the data
  frame hands back for the record's cells.
\<close>

theorem interactions_overlay:
  assumes name: "ch_name change = ''value''"
      and diff: "ch_new change \<noteq> ch_old change"
      and path: "py_index list_docking_poses_filepaths (ch_new change) = Inr pose_filepath"
      and aff: "py_index list_docking_poses_affinities (ch_new change) = Inr affinity"
      and items: "py_index list_docking_poses_plip_dicts (ch_new change) = Inr items"
      and ok: "list_all entry_ok items"
  shows "interactions_on_selection_change df_value py_str protein_filepath protein_file_extension
           list_docking_poses_filepaths docking_poses_file_extension
           list_docking_poses_affinities list_docking_poses_plip_dicts change (app, w) =
           (Inr (), app\<lparr>app_center := Some (length (w_widgets w))\<rparr>,
            staged app w
              (pose_calls protein_filepath protein_file_extension pose_filepath
                 docking_poses_file_extension affinity @
               concat (map (cylinders_of df_value) items) @
               highlight_calls py_str (concat (map (residues_of df_value) items)))
              [Sleep 1, Sleep 1])
         \<and> length (concat (map (cylinders_of df_value) items)) =
             sum_list (map (\<lambda>entry. length (snd entry) - 1) items)"
proof -
  have "length (concat (map (cylinders_of df_value) items)) =
          sum_list (map (\<lambda>entry. length (snd entry) - 1) items)"
    by (simp add: length_concat comp_def length_cylinders_of)
  with interactions_handler_ok [OF name diff path aff items ok] show ?thesis
    by simp
qed

theorem interactions_overlay_witness:
  "py_index example_filepaths (Some 0) = Inr ''pose1.pdbqt''
   \<and> py_index example_kcal (Some 0) = Inr ''-9 kcal/mol''
   \<and> py_index example_plip_dicts (Some 0) = Inr example_dict1
   \<and> list_all entry_ok example_dict1
   \<and> example_handler \<lparr>ch_name = ''value'', ch_new = Some 0, ch_old = None\<rparr>
         (example_app0, w_empty) =
       (Inr (), example_app0\<lparr>app_center := Some 0\<rparr>,
        staged example_app0 w_empty
          [Add_component ''rec.pdb'' ''pdb'' [(''default_representation'', ''False'')],
           Comp_add_representation 0 ''cartoon'',
           Add_component ''pose1.pdbqt'' ''pdbqt'' [],
           Comp_add_label 1 [''-9 kcal/mol''] label_kwargs,
           Comp_center 1 500,
           Shape_add_cylinder (Tup [Num 1, Num 2, Num 3]) (Tup [Num 4, Num 5, Num 6])
             [0.90, 0.10, 0.29] [0.1] ''hydrophobic'',
           Shape_add_cylinder (Tup [Num 1, Num 0, Num 3]) (Tup [Num 2, Num 2, Num 2])
             [0.90, 0.10, 0.29] [0.1] ''hydrophobic'',
           Comp_add_ball_and_stick 0 ''(104 and not _H) or (87 and not _H)''
             ''chainindex'' 1.5,
           Comp_add_ball_and_stick 0
             ''(104 and ((_O) or (_N) or (_S))) or (87 and ((_O) or (_N) or (_S)))''
             ''element'' 1.5]
          [Sleep 1, Sleep 1])
   \<and> length (concat (map (cylinders_of example_value) example_dict1)) = 2"
proof -
  let ?ch = "\<lparr>ch_name = ''value'', ch_new = Some 0, ch_old = None\<rparr>"
  have h1: "ch_name ?ch = ''value''" and h2: "ch_new ?ch \<noteq> ch_old ?ch"
    by simp_all
  have h3: "py_index example_filepaths (ch_new ?ch) = Inr ''pose1.pdbqt''"
   and h4: "py_index example_kcal (ch_new ?ch) = Inr ''-9 kcal/mol''"
   and h5: "py_index example_plip_dicts (ch_new ?ch) = Inr example_dict1"
    by (simp_all add: example_index0)
  note t = interactions_overlay [OF h1 h2 h3 h4 h5 example_dicts_ok(1),
      of example_value str_example "''rec.pdb''" "''pdb''" "''pdbqt''" example_app0 w_empty]
  have calls: "pose_calls ''rec.pdb'' ''pdb'' ''pose1.pdbqt'' ''pdbqt'' ''-9 kcal/mol'' @
           concat (map (cylinders_of example_value) example_dict1) @
           highlight_calls str_example (concat (map (residues_of example_value) example_dict1)) =
          [Add_component ''rec.pdb'' ''pdb'' [(''default_representation'', ''False'')],
           Comp_add_representation 0 ''cartoon'',
           Add_component ''pose1.pdbqt'' ''pdbqt'' [],
           Comp_add_label 1 [''-9 kcal/mol''] label_kwargs,
           Comp_center 1 500,
           Shape_add_cylinder (Tup [Num 1, Num 2, Num 3]) (Tup [Num 4, Num 5, Num 6])
             [0.90, 0.10, 0.29] [0.1] ''hydrophobic'',
           Shape_add_cylinder (Tup [Num 1, Num 0, Num 3]) (Tup [Num 2, Num 2, Num 2])
             [0.90, 0.10, 0.29] [0.1] ''hydrophobic'',
           Comp_add_ball_and_stick 0 ''(104 and not _H) or (87 and not _H)''
             ''chainindex'' 1.5,
           Comp_add_ball_and_stick 0
             ''(104 and ((_O) or (_N) or (_S))) or (87 and ((_O) or (_N) or (_S)))''
             ''element'' 1.5]"
    unfolding example_residues1 example_highlights1 example_cylinders1 pose_calls_def
    by simp
  have "length (concat (map (cylinders_of example_value) example_dict1)) = 2"
    using t [THEN conjunct2] by (simp add: example_dict1_def)
  moreover have "example_handler ?ch (example_app0, w_empty) =
       (Inr (), example_app0\<lparr>app_center := Some 0\<rparr>,
        staged example_app0 w_empty
          (pose_calls ''rec.pdb'' ''pdb'' ''pose1.pdbqt'' ''pdbqt'' ''-9 kcal/mol'' @
           concat (map (cylinders_of example_value) example_dict1) @
           highlight_calls str_example (concat (map (residues_of example_value) example_dict1)))
          [Sleep 1, Sleep 1])"
    using t [THEN conjunct1] by (simp add: example_handler_def w_empty_def)
  ultimately show ?thesis
    unfolding calls by (simp add: example_index0 example_dicts_ok)
qed

text \<open>
  C3. In the docking view, with the protein as component 0 and one component per pose
  file path, a notification named \<open>value\<close> whose new value \<open>i\<close> differs from the old one
  and is one of the selector's values \<open>1..n\<close> makes the handler hide the components
  \<open>1..n\<close>, then show and center component \<open>i\<close> and run the residue script for it; after
  that, of the ligands \<open>1..n\<close> exactly the one at \<open>i\<close> is visible.
\<close>

theorem docking_selection_change:
  assumes v: "viewer < length (w_widgets w)"
      and n: "length list_docking_poses_filepaths < n_components (w_widgets w ! viewer)"
      and name: "ch_name change = ''value''"
      and diff: "ch_new change \<noteq> ch_old change"
      and new: "ch_new change = Some i"
      and lo: "1 \<le> i"
      and hi: "i \<le> int (length list_docking_poses_filepaths)"
  shows "docking_on_selection_change viewer list_docking_poses_filepaths change w =
           (Inr (),
            after_calls viewer
              (map (Set_visibility False) [1 ..< length list_docking_poses_filepaths + 1] @
               [Set_visibility True (nat i), Comp_center (nat i) 500,
                Execute_js_code (RESIDUES_AROUND i 6)]) w)
         \<and> (\<forall>j. 1 \<le> j \<and> j \<le> length list_docking_poses_filepaths \<longrightarrow>
                visible (w_widgets (snd (docking_on_selection_change viewer
                   list_docking_poses_filepaths change w)) ! viewer) j = (j = nat i))"
proof -
  define indices where "indices = [1 ..< length list_docking_poses_filepaths + 1]"
  define hides where "hides = map (Set_visibility False) indices"
  define w1 where "w1 = after_calls viewer hides w"
  define rest where "rest = [Set_visibility True (nat i), Comp_center (nat i) 500,
                Execute_js_code (RESIDUES_AROUND i 6)]"
  have set_indices: "set indices = {1 .. length list_docking_poses_filepaths}"
    by (auto simp: indices_def)
  have all: "list_all (\<lambda>k. k < n_components (w_widgets w ! viewer)) indices"
    using n by (auto simp: list_all_iff set_indices)
  have h: "hide viewer indices w = (Inr (), w1)"
    using hide_after_calls [OF v all] by (simp add: w1_def hides_def)
  have "filter is_add_component hides = []"
    by (simp add: filter_empty_conv hides_def)
  then have nc: "n_components (w_widgets w1 ! viewer) = n_components (w_widgets w ! viewer)"
    using v by (simp add: n_components_after_calls w1_def)
  have g: "getattr_component viewer (ch_new change) w1 = Inr (nat i)"
    using new lo hi n by (simp add: getattr_component_def nc)
  have run: "docking_on_selection_change viewer list_docking_poses_filepaths change w =
      (Inr (), after_calls viewer (hides @ rest) w)"
    unfolding docking_on_selection_change_def indices_def [symmetric]
    using name diff lo
    by (simp add: h g call_after_calls after_calls_twice rest_def)
       (simp add: w1_def after_calls_twice)
  have vis: "visible (w_widgets (after_calls viewer (hides @ rest) w) ! viewer) j = (j = nat i)"
    if "1 \<le> j \<and> j \<le> length list_docking_poses_filepaths" for j
  proof -
    have "ngl_calls (w_widgets (after_calls viewer (hides @ rest) w) ! viewer) =
            ngl_calls (w_widgets w1 ! viewer) @ rest"
      using v by (simp add: calls_after_calls w1_def)
    moreover have "visible (w_widgets w1 ! viewer) j = False"
      using that visible_after [of "w_widgets w1 ! viewer" "w_widgets w ! viewer" hides j] v
      by (simp add: calls_after_calls foldl_hidden w1_def hides_def set_indices)
    ultimately show ?thesis
      using visible_after [of _ "w_widgets w1 ! viewer" rest j] by (auto simp: rest_def)
  qed
  show ?thesis
    using run vis by (simp add: hides_def rest_def indices_def)
qed

theorem docking_selection_change_witness:
  "docking_on_selection_change 0 example_filepaths
     \<lparr>ch_name = ''value'', ch_new = Some 2, ch_old = Some 1\<rparr> (snd example_docking) =
     (Inr (),
      after_calls 0
        [Set_visibility False 1, Set_visibility False 2, Set_visibility False 3,
         Set_visibility True 2, Comp_center 2 500, Execute_js_code (RESIDUES_AROUND 2 6)]
        (snd example_docking))
   \<and> visible (w_widgets (snd (docking_on_selection_change 0 example_filepaths
         \<lparr>ch_name = ''value'', ch_new = Some 2, ch_old = Some 1\<rparr> (snd example_docking))) ! 0) 1
       = False
   \<and> visible (w_widgets (snd (docking_on_selection_change 0 example_filepaths
         \<lparr>ch_name = ''value'', ch_new = Some 2, ch_old = Some 1\<rparr> (snd example_docking))) ! 0) 2
       = True
   \<and> visible (w_widgets (snd (docking_on_selection_change 0 example_filepaths
         \<lparr>ch_name = ''value'', ch_new = Some 2, ch_old = Some 1\<rparr> (snd example_docking))) ! 0) 3
       = False"
proof -
  let ?ch = "\<lparr>ch_name = ''value'', ch_new = Some 2, ch_old = Some 1\<rparr>"
  have len: "length example_filepaths = 3"
    by (simp add: example_filepaths_def)
  have idx: "[1 ..< length example_filepaths + 1] = [1, 2, 3]"
    by (simp add: len upt_rec)
  note t = docking_selection_change [of 0 "snd example_docking" example_filepaths ?ch 2,
      OF example_docking_viewer example_docking_components]
  have t': "docking_on_selection_change 0 example_filepaths ?ch (snd example_docking) =
           (Inr (),
            after_calls 0
              (map (Set_visibility False) [1 ..< length example_filepaths + 1] @
               [Set_visibility True (nat 2), Comp_center (nat 2) 500,
                Execute_js_code (RESIDUES_AROUND 2 6)]) (snd example_docking))
         \<and> (\<forall>j. 1 \<le> j \<and> j \<le> length example_filepaths \<longrightarrow>
                visible (w_widgets (snd (docking_on_selection_change 0
                   example_filepaths ?ch (snd example_docking))) ! 0) j = (j = nat 2))"
    by (rule t) (simp_all add: len)
  from t' [THEN conjunct1] have a: "docking_on_selection_change 0 example_filepaths ?ch (snd example_docking) =
     (Inr (),
      after_calls 0
        [Set_visibility False 1, Set_visibility False 2, Set_visibility False 3,
         Set_visibility True 2, Comp_center 2 500, Execute_js_code (RESIDUES_AROUND 2 6)]
        (snd example_docking))"
    unfolding idx by simp
  from t' [THEN conjunct2] have v: "\<And>j. 1 \<le> j \<and> j \<le> 3 \<Longrightarrow>
       visible (w_widgets (snd (docking_on_selection_change 0
                   example_filepaths ?ch (snd example_docking))) ! 0) j = (j = 2)"
    by (simp add: len)
  show ?thesis
    using a v [of 1] v [of 2] v [of 3] by simp
qed

text \<open>
  C4 (amended). The docking handler only ever makes calls on the one viewer widget it
  closes over, never a \<open>close\<close>: the world after it is the world before with calls added
  to that widget. The interactions handler, on a notification named \<open>value\<close> with a new
  value, rebinds the layout's center to a widget that did not exist before, created in
  this call and not closed; the widget that was at the center is closed and every other
  widget is left as it was. On any other notification it changes nothing.
\<close>

theorem handlers_and_widget_identity:
  "(\<forall>r w'. docking_on_selection_change viewer list_docking_poses_filepaths change w = (r, w')
      \<longrightarrow> (\<exists>cs. w' = after_calls viewer cs w \<and> Close \<notin> set cs))
   \<and> (\<forall>r app' w'.
        interactions_on_selection_change df_value py_str protein_filepath protein_file_extension
          list_docking_poses_filepaths docking_poses_file_extension
          list_docking_poses_affinities list_docking_poses_plip_dicts change (app, w)
          = (r, app', w')
        \<longrightarrow>
        (if ch_name change = ''value'' \<and> ch_new change \<noteq> ch_old change
         then app_center app' = Some (length (w_widgets w))
              \<and> length (w_widgets w') = Suc (length (w_widgets w))
              \<and> \<not> is_closed (w_widgets w' ! length (w_widgets w))
              \<and> (\<forall>c < length (w_widgets w).
                    w_widgets w' ! c =
                      (if app_center app = Some c
                       then (w_widgets w ! c)
                              \<lparr>ngl_calls := ngl_calls (w_widgets w ! c) @ [Close]\<rparr>
                       else w_widgets w ! c))
         else app' = app \<and> w' = w))"
proof (intro conjI allI impI)
  fix r w'
  assume "docking_on_selection_change viewer list_docking_poses_filepaths change w = (r, w')"
  from docking_handler_frame [OF this]
  show "\<exists>cs. w' = after_calls viewer cs w \<and> Close \<notin> set cs"
    by blast
next
  fix r app' w'
  assume run: "interactions_on_selection_change df_value py_str protein_filepath protein_file_extension
          list_docking_poses_filepaths docking_poses_file_extension
          list_docking_poses_affinities list_docking_poses_plip_dicts change (app, w)
          = (r, app', w')"
  show "if ch_name change = ''value'' \<and> ch_new change \<noteq> ch_old change
         then app_center app' = Some (length (w_widgets w))
              \<and> length (w_widgets w') = Suc (length (w_widgets w))
              \<and> \<not> is_closed (w_widgets w' ! length (w_widgets w))
              \<and> (\<forall>c < length (w_widgets w).
                    w_widgets w' ! c =
                      (if app_center app = Some c
                       then (w_widgets w ! c)
                              \<lparr>ngl_calls := ngl_calls (w_widgets w ! c) @ [Close]\<rparr>
                       else w_widgets w ! c))
         else app' = app \<and> w' = w"
  proof (cases "ch_name change = ''value'' \<and> ch_new change \<noteq> ch_old change")
    case False
    with run show ?thesis
      by (auto simp: interactions_on_selection_change_def)
  next
    case True
    then have eff: "ch_name change = ''value''" "ch_new change \<noteq> ch_old change"
      by simp_all
    from interactions_handler_frame [OF eff run] obtain cs evs where
      app': "app' = app\<lparr>app_center := Some (length (w_widgets w))\<rparr>"
      and w': "w' = staged app w cs evs" and nc: "Close \<notin> set cs"
      by blast
    have "\<not> is_closed (w_widgets w' ! length (w_widgets w))"
      using nc by (simp add: w' staged_widget is_closed_def fresh_widget_def)
    moreover have "\<forall>c < length (w_widgets w).
                    w_widgets w' ! c =
                      (if app_center app = Some c
                       then (w_widgets w ! c)
                              \<lparr>ngl_calls := ngl_calls (w_widgets w ! c) @ [Close]\<rparr>
                       else w_widgets w ! c)"
      by (simp add: w' staged_old_widget close_center_widget)
    ultimately show ?thesis
      using True by (simp add: app' w' length_staged)
  qed
qed

theorem handlers_and_widget_identity_witness:
  "(\<exists>cs. snd (docking_on_selection_change 0 example_filepaths
              \<lparr>ch_name = ''value'', ch_new = Some 2, ch_old = Some 1\<rparr> (snd example_docking)) =
          after_calls 0 cs (snd example_docking) \<and> Close \<notin> set cs)
   \<and> app_center (fst (snd (example_handler
         \<lparr>ch_name = ''value'', ch_new = Some 2, ch_old = Some 1\<rparr>
         (example_app1, snd example_interactions)))) = Some 1
   \<and> length (w_widgets (snd (snd (example_handler
         \<lparr>ch_name = ''value'', ch_new = Some 2, ch_old = Some 1\<rparr>
         (example_app1, snd example_interactions))))) = 2
   \<and> example_handler \<lparr>ch_name = ''value'', ch_new = Some 2, ch_old = Some 2\<rparr>
         (example_app1, snd example_interactions) =
       (Inr (), example_app1, snd example_interactions)"
proof -
  let ?ch = "\<lparr>ch_name = ''value'', ch_new = Some 2, ch_old = Some 1\<rparr>"
  let ?same = "\<lparr>ch_name = ''value'', ch_new = Some 2, ch_old = Some 2\<rparr>"
  let ?d = "docking_on_selection_change 0 example_filepaths ?ch (snd example_docking)"
  let ?h = "example_handler ?ch (example_app1, snd example_interactions)"
  let ?s = "example_handler ?same (example_app1, snd example_interactions)"
  note td = handlers_and_widget_identity [of 0 example_filepaths ?ch "snd example_docking"
      example_value str_example "''rec.pdb''" "''pdb''" "''pdbqt''" example_kcal example_plip_dicts
      example_app1]
  note t = handlers_and_widget_identity [of 0 example_filepaths ?ch "snd example_interactions"
      example_value str_example "''rec.pdb''" "''pdb''" "''pdbqt''" example_kcal example_plip_dicts
      example_app1]
  note t' = handlers_and_widget_identity [of 0 example_filepaths ?same
      "snd example_interactions"
      example_value str_example "''rec.pdb''" "''pdb''" "''pdbqt''" example_kcal example_plip_dicts
      example_app1]
  have d: "?d = (fst ?d, snd ?d)" and h: "?h = (fst ?h, fst (snd ?h), snd (snd ?h))"
    and s: "?s = (fst ?s, fst (snd ?s), snd (snd ?s))"
    by simp_all
  from td [THEN conjunct1, rule_format, OF d]
  have a: "\<exists>cs. snd ?d = after_calls 0 cs (snd example_docking) \<and> Close \<notin> set cs" .
  from t [THEN conjunct2, rule_format, OF h [unfolded example_handler_def]]
  have b: "app_center (fst (snd ?h)) = Some 1 \<and> length (w_widgets (snd (snd ?h))) = 2"
    by (simp add: example_world1_length example_handler_def)
  from t' [THEN conjunct2, rule_format, OF s [unfolded example_handler_def]]
  have c: "fst (snd ?s) = example_app1 \<and> snd (snd ?s) = snd example_interactions"
    by (simp add: example_handler_def)
  have "fst ?s = Inr ()"
    by (simp add: example_handler_def interactions_on_selection_change_def)
  with c have "?s = (Inr (), example_app1, snd example_interactions)"
    by (metis s)
  with a b show ?thesis
    by blast
qed

text \<open>
  C4 as stated fails in the interactions view. After \<open>interactions\<close> has run, the
  layout's center is widget 0, which is open; when the user then picks the second
  label, the handler leaves the center at widget 1 and widget 0 closed.
\<close>

theorem interactions_handler_replaces_widget:
  "example_interactions = (Inr example_app1, snd example_interactions)
   \<and> app_center example_app1 = Some 0
   \<and> \<not> is_closed (w_widgets (snd example_interactions) ! 0)
   \<and> app_center (fst (snd (example_handler
         \<lparr>ch_name = ''value'', ch_new = Some 2, ch_old = Some 1\<rparr>
         (example_app1, snd example_interactions)))) = Some 1
   \<and> is_closed (w_widgets (snd (snd (example_handler
         \<lparr>ch_name = ''value'', ch_new = Some 2, ch_old = Some 1\<rparr>
         (example_app1, snd example_interactions)))) ! 0)"
proof -
  have c: "app_center example_app1 = Some 0"
    by (simp add: example_app1_def)
  have l: "0 < length (w_widgets (snd example_interactions))"
    by (simp add: example_world1_length)
  have "is_closed (w_widgets (staged example_app1 (snd example_interactions) cs evs) ! 0)" for cs evs
    by (simp add: staged_old_widget [OF l] close_center_widget [OF l] c is_closed_def)
  then show ?thesis
    using example_world1_open c
    by (simp add: example_select_second) (simp add: example_interactions_eq)
qed

text \<open>
  C5. Whatever its arguments, \<open>binding_site\<close> raises a name-resolution error at its first
  statement: \<open>NGLView\<close> is not a name of the module. Nothing has happened by then; in
  particular no file was handed to \<open>open\<close>, neither the protein's nor the CCP4 file.
\<close>

theorem binding_site_NameError:
  "binding_site fs protein_input_type protein_input_value ccp4_filepath w = (Inl NameError, w)"
  by (simp add: binding_site_def module_globals_def)

text \<open>
  C6. \<open>protein\<close> dispatches on the input type. For \<open>pdb_code\<close> the widget is created from
  the identifier and no file is opened (the events are unchanged). For any other input
  type the file at \<open>input_value\<close> is opened and, when that succeeds, its content is handed
  to the viewer with the input type as the format, and the cartoon representation is
  added; when it fails the error is returned. In both successful cases the ball-and-stick
  representation for non-water hetero atoms is added next and the view is centered on the
  protein, before the optional image calls.
\<close>

theorem protein_dispatch:
  "(input_type = ''pdb_code'' \<longrightarrow>
      protein fs input_type input_value output_image_filename w =
        (Inr (length (w_widgets w)),
         w\<lparr>w_widgets := w_widgets w @
              [\<lparr>ngl_origin = Show_pdbid input_value [(''height'', ''600px'')],
                ngl_calls =
                  [Add_representation ''ball+stick'' ''hetero and not water'',
                   Center (Some ''protein'')] @
                  (case output_image_filename of
                     None \<Rightarrow> []
                   | Some fn \<Rightarrow> [Render_image True 2, Display_image, Download_image fn])\<rparr>]\<rparr>))
   \<and> (input_type \<noteq> ''pdb_code'' \<longrightarrow>
        (\<forall>f. fs input_value = Inr f \<longrightarrow>
           protein fs input_type input_value output_image_filename w =
             (Inr (length (w_widgets w)),
              w\<lparr>w_widgets := w_widgets w @
                   [\<lparr>ngl_origin = Show_file f input_type
                        [(''height'', ''600px''), (''default_representation'', ''False'')],
                     ngl_calls =
                       [Add_representation ''cartoon'' ''protein'',
                        Add_representation ''ball+stick'' ''hetero and not water'',
                        Center (Some ''protein'')] @
                       (case output_image_filename of
                          None \<Rightarrow> []
                        | Some fn \<Rightarrow> [Render_image True 2, Display_image, Download_image fn])\<rparr>],
                 w_events := w_events w @ [Open_file input_value ''r'']\<rparr>))
        \<and> (\<forall>e. fs input_value = Inl e \<longrightarrow>
             protein fs input_type input_value output_image_filename w =
               (Inl e, w\<lparr>w_events := w_events w @ [Open_file input_value ''r'']\<rparr>)))"
  by (cases output_image_filename)
     (auto simp: protein_def new_widget_def call_def emit_def Let_def)

theorem protein_dispatch_witness:
  "protein fs_example ''pdb_code'' ''3poz'' None w_empty =
     (Inr 0,
      \<lparr>w_widgets =
         [\<lparr>ngl_origin = Show_pdbid ''3poz'' [(''height'', ''600px'')],
           ngl_calls = [Add_representation ''ball+stick'' ''hetero and not water'',
                        Center (Some ''protein'')]\<rparr>],
       w_events = []\<rparr>)
   \<and> fs_example ''rec.pdb'' = Inr ''ATOM''
   \<and> protein fs_example ''pdb'' ''rec.pdb'' (Some ''protein.png'') w_empty =
     (Inr 0,
      \<lparr>w_widgets =
         [\<lparr>ngl_origin = Show_file ''ATOM'' ''pdb''
              [(''height'', ''600px''), (''default_representation'', ''False'')],
           ngl_calls = [Add_representation ''cartoon'' ''protein'',
                        Add_representation ''ball+stick'' ''hetero and not water'',
                        Center (Some ''protein''),
                        Render_image True 2, Display_image, Download_image ''protein.png'']\<rparr>],
       w_events = [Open_file ''rec.pdb'' ''r'']\<rparr>)
   \<and> fs_example ''missing.pdb'' = Inl FileNotFoundError
   \<and> protein fs_example ''pdb'' ''missing.pdb'' None w_empty =
     (Inl FileNotFoundError, \<lparr>w_widgets = [], w_events = [Open_file ''missing.pdb'' ''r'']\<rparr>)"
proof -
  have f1: "fs_example ''rec.pdb'' = Inr ''ATOM''"
   and f2: "fs_example ''missing.pdb'' = Inl FileNotFoundError"
    by (simp_all add: fs_example_def)
  have n: "''pdb'' \<noteq> ''pdb_code''"
    by simp
  note a = protein_dispatch [of "''pdb_code''" fs_example "''3poz''" None w_empty,
      THEN conjunct1, rule_format, OF refl]
  note b = protein_dispatch [of "''pdb''" fs_example "''rec.pdb''" "Some ''protein.png''" w_empty,
      THEN conjunct2, rule_format, OF n, THEN conjunct1, rule_format, OF f1]
  note c = protein_dispatch [of "''pdb''" fs_example "''missing.pdb''" None w_empty,
      THEN conjunct2, rule_format, OF n, THEN conjunct2, rule_format, OF f2]
  show ?thesis
    using a b c f1 f2 by (simp add: w_empty_def)
qed

text \<open>
  C7. With a file system in which neither \<open>missing.pdb\<close> nor \<open>missing.ccp4\<close> exists,
  \<open>protein\<close> on the missing file returns the error of \<open>open\<close>, while \<open>binding_site\<close>
  returns a \<open>NameError\<close> for a missing protein file and for a missing CCP4 file alike.
\<close>

theorem binding_site_hides_file_errors:
  "fs_example ''missing.pdb'' = Inl FileNotFoundError
   \<and> fs_example ''missing.ccp4'' = Inl FileNotFoundError
   \<and> protein fs_example ''pdb'' ''missing.pdb'' None w_empty =
       (Inl FileNotFoundError, \<lparr>w_widgets = [], w_events = [Open_file ''missing.pdb'' ''r'']\<rparr>)
   \<and> binding_site fs_example ''pdb'' ''missing.pdb'' ''missing.ccp4'' w_empty =
       (Inl NameError, w_empty)
   \<and> binding_site fs_example ''pdb'' ''rec.pdb'' ''missing.ccp4'' w_empty =
       (Inl NameError, w_empty)"
  by (simp add: fs_example_def binding_site_def module_globals_def protein_def emit_def
        w_empty_def)

text \<open>
  C8. A notification to the docking view's handler whose name is not \<open>value\<close>, or whose
  new value equals the old one, changes nothing: the handler returns with the world as it
  was (no visibility set, nothing centered, no script executed).
\<close>

theorem docking_no_update:
  "ch_name change \<noteq> ''value'' \<or> ch_new change = ch_old change \<Longrightarrow>
     docking_on_selection_change viewer list_docking_poses_filepaths change w = (Inr (), w)"
  by (auto simp: docking_on_selection_change_def)

theorem docking_no_update_witness:
  "docking_on_selection_change 0 example_filepaths
     \<lparr>ch_name = ''index'', ch_new = Some 1, ch_old = Some 0\<rparr> (snd example_docking)
     = (Inr (), snd example_docking)
   \<and> docking_on_selection_change 0 example_filepaths
     \<lparr>ch_name = ''value'', ch_new = Some 2, ch_old = Some 2\<rparr> (snd example_docking)
     = (Inr (), snd example_docking)"
  using docking_no_update [of "\<lparr>ch_name = ''index'', ch_new = Some 1, ch_old = Some 0\<rparr>"
          0 example_filepaths "snd example_docking"]
        docking_no_update [of "\<lparr>ch_name = ''value'', ch_new = Some 2, ch_old = Some 2\<rparr>"
          0 example_filepaths "snd example_docking"]
  by simp

text \<open>
  C9. When the dictionary of the selected pose has an entry whose type is not one of the
  eight types of the color table, the interactions handler ends in an error and no
  cylinder named by that type was drawn on the new widget; when the entries before it
  are well formed, the error is the \<open>KeyError\<close> of the color lookup. For each of the eight
  types the lookup gives a list of three numbers between 0 and 1.
\<close>

theorem unknown_interaction_type_KeyError:
  "(ch_name change = ''value'' \<and> ch_new change \<noteq> ch_old change \<and>
    py_index list_docking_poses_filepaths (ch_new change) = Inr pose_filepath \<and>
    py_index list_docking_poses_affinities (ch_new change) = Inr affinity \<and>
    py_index list_docking_poses_plip_dicts (ch_new change) = Inr items \<and>
    (interaction_type, interaction_list) \<in> set items \<and>
    interaction_type \<notin> fixed_names
    \<longrightarrow>
      (\<exists>e app' w'.
         interactions_on_selection_change df_value py_str protein_filepath protein_file_extension
           list_docking_poses_filepaths docking_poses_file_extension
           list_docking_poses_affinities list_docking_poses_plip_dicts change (app, w) =
           (Inl e, app', w') \<and>
         list_all (\<lambda>c. cylinder_name c \<noteq> Some interaction_type)
           (ngl_calls (w_widgets w' ! length (w_widgets w))))
      \<and> (\<forall>pre post. items = pre @ (interaction_type, interaction_list) # post \<and>
             list_all entry_ok pre \<longrightarrow>
           fst (interactions_on_selection_change df_value py_str protein_filepath
                  protein_file_extension list_docking_poses_filepaths
                  docking_poses_file_extension list_docking_poses_affinities
                  list_docking_poses_plip_dicts change (app, w)) = Inl KeyError))
   \<and> (\<forall>name \<in> fixed_names.
        (case color_map_lookup name of
           Inl e \<Rightarrow> False
         | Inr color \<Rightarrow> length color = 3 \<and> list_all (\<lambda>x. 0 \<le> x \<and> x \<le> 1) color))"
proof (intro conjI impI)
  show "\<forall>name \<in> fixed_names.
        (case color_map_lookup name of
           Inl e \<Rightarrow> False
         | Inr color \<Rightarrow> length color = 3 \<and> list_all (\<lambda>x. 0 \<le> x \<and> x \<le> 1) color)"
    by (simp add: color_map_lookup_def color_map_def fixed_names_def)
next
  let ?run = "interactions_on_selection_change df_value py_str protein_filepath protein_file_extension
           list_docking_poses_filepaths docking_poses_file_extension
           list_docking_poses_affinities list_docking_poses_plip_dicts change (app, w)"
  let ?v = "length (w_widgets w)"
  let ?pose = "pose_calls protein_filepath protein_file_extension pose_filepath
                 docking_poses_file_extension affinity"
  let ?W = "staged app w ?pose [Sleep 1, Sleep 1]"
  assume h: "ch_name change = ''value'' \<and> ch_new change \<noteq> ch_old change \<and>
    py_index list_docking_poses_filepaths (ch_new change) = Inr pose_filepath \<and>
    py_index list_docking_poses_affinities (ch_new change) = Inr affinity \<and>
    py_index list_docking_poses_plip_dicts (ch_new change) = Inr items \<and>
    (interaction_type, interaction_list) \<in> set items \<and>
    interaction_type \<notin> fixed_names"
  then have "interaction_type \<notin> fixed_names"
    by simp
  then have none: "map_of color_map interaction_type = None"
    by (rule unknown_type_lookup)
  from h have run: "?run =
      (case draw_interactions df_value ?v items [] ?W of
         (Inl e, w10) \<Rightarrow> (Inl e, app\<lparr>app_center := Some ?v\<rparr>, w10)
       | (Inr res, w10) \<Rightarrow>
           (Inr (), app\<lparr>app_center := Some ?v\<rparr>,
            after_calls ?v (highlight_calls py_str res) w10))"
    by (simp add: interactions_handler_unfolded)
  obtain r1 w10 where d: "draw_interactions df_value ?v items [] ?W = (r1, w10)"
    by (cases "draw_interactions df_value ?v items [] ?W")
  from h have mem: "(interaction_type, interaction_list) \<in> set items"
    by simp
  from draw_interactions_unknown_fails [OF mem none, of df_value ?v "[]" ?W]
  obtain e where "fst (draw_interactions df_value ?v items [] ?W) = Inl e" ..
  then have e: "r1 = Inl e"
    unfolding d by simp
  from draw_interactions_frame [OF d] obtain cs where
    cs: "w10 = after_calls ?v cs ?W" "list_all drawn_ok cs" by blast
  have w10: "w_widgets w10 ! ?v = fresh_widget (?pose @ cs)"
    by (simp add: cs(1) after_calls_staged staged_widget)
  have "list_all (\<lambda>c. cylinder_name c \<noteq> Some interaction_type) cs"
    using cs(2) none by (auto simp: list_all_iff drawn_ok_def split: option.splits)
  moreover have "list_all (\<lambda>c. cylinder_name c \<noteq> Some interaction_type) ?pose"
    using pose_calls_no_cylinder [of protein_filepath protein_file_extension pose_filepath
            docking_poses_file_extension affinity]
    by (simp add: list_all_iff)
  ultimately have "list_all (\<lambda>c. cylinder_name c \<noteq> Some interaction_type)
      (ngl_calls (w_widgets w10 ! ?v))"
    by (simp add: w10 fresh_widget_def)
  moreover have "?run = (Inl e, app\<lparr>app_center := Some ?v\<rparr>, w10)"
    unfolding run d e by simp
  ultimately show "\<exists>e app' w'. ?run = (Inl e, app', w') \<and>
         list_all (\<lambda>c. cylinder_name c \<noteq> Some interaction_type)
           (ngl_calls (w_widgets w' ! length (w_widgets w)))"
    by blast
  show "\<forall>pre post. items = pre @ (interaction_type, interaction_list) # post \<and>
             list_all entry_ok pre \<longrightarrow> fst ?run = Inl KeyError"
  proof (intro allI impI)
    fix pre post
    assume p: "items = pre @ (interaction_type, interaction_list) # post \<and> list_all entry_ok pre"
    then have "draw_interactions df_value ?v items [] ?W =
        (Inl KeyError, after_calls ?v (concat (map (cylinders_of df_value) pre)) ?W)"
      using none
      by (simp add: draw_interactions_append draw_interactions_ok color_map_lookup_def)
    then show "fst ?run = Inl KeyError"
      by (simp add: run)
  qed
qed

theorem unknown_interaction_type_KeyError_witness:
  "(\<exists>e app' w'.
      interactions_on_selection_change example_value str_example ''rec.pdb'' ''pdb'' example_filepaths
        ''pdbqt'' example_kcal [example_dict_unknown]
        \<lparr>ch_name = ''value'', ch_new = Some 0, ch_old = None\<rparr> (example_app0, w_empty) =
        (Inl e, app', w') \<and>
      list_all (\<lambda>c. cylinder_name c \<noteq> Some ''covalent'')
        (ngl_calls (w_widgets w' ! length (w_widgets w_empty))))
   \<and> fst (interactions_on_selection_change example_value str_example ''rec.pdb'' ''pdb'' example_filepaths
        ''pdbqt'' example_kcal [example_dict_unknown]
        \<lparr>ch_name = ''value'', ch_new = Some 0, ch_old = None\<rparr> (example_app0, w_empty))
       = Inl KeyError
   \<and> (case color_map_lookup ''hbond'' of
         Inl e \<Rightarrow> False
       | Inr color \<Rightarrow> length color = 3 \<and> list_all (\<lambda>x. 0 \<le> x \<and> x \<le> 1) color)"
proof -
  let ?ch = "\<lparr>ch_name = ''value'', ch_new = Some 0, ch_old = None\<rparr>"
  let ?pre = "[(''saltbridge'',
        [example_header,
         [Num 12, Str ''LYS'', Tup [Num 0, Num 0, Num 1], Tup [Num 3, Num 3, Num 3]]])]"
  let ?l = "[example_header,
         [Num 33, Str ''CYS'', Tup [Num 5, Num 5, Num 5], Tup [Num 6, Num 6, Num 6]]]"
  have split: "example_dict_unknown = ?pre @ (''covalent'', ?l) # []"
    by (simp add: example_dict_unknown_def)
  have h: "ch_name ?ch = ''value'' \<and> ch_new ?ch \<noteq> ch_old ?ch \<and>
    py_index example_filepaths (ch_new ?ch) = Inr ''pose1.pdbqt'' \<and>
    py_index example_kcal (ch_new ?ch) = Inr ''-9 kcal/mol'' \<and>
    py_index [example_dict_unknown] (ch_new ?ch) = Inr example_dict_unknown \<and>
    (''covalent'', ?l) \<in> set example_dict_unknown \<and> ''covalent'' \<notin> fixed_names"
  proof -
    have "py_index [example_dict_unknown] (Some 0) = Inr example_dict_unknown"
      by (simp add: py_index_def)
    moreover have "(''covalent'', ?l) \<in> set example_dict_unknown"
      by (simp add: example_dict_unknown_def)
    ultimately show ?thesis
      by (simp add: example_index0 covalent_not_fixed)
  qed
  note t = unknown_interaction_type_KeyError [of ?ch example_filepaths "''pose1.pdbqt''"
      example_kcal "''-9 kcal/mol''" "[example_dict_unknown]" example_dict_unknown
      "''covalent''" ?l example_value str_example "''rec.pdb''" "''pdb''" "''pdbqt''" example_app0 w_empty]
  note t1 = t [THEN conjunct1, rule_format, OF h]
  note a = t1 [THEN conjunct1]
  note b = t1 [THEN conjunct2, rule_format, of ?pre "[]"]
  note c = t [THEN conjunct2, rule_format, OF hbond_fixed]
  have "fst (interactions_on_selection_change example_value str_example ''rec.pdb'' ''pdb'' example_filepaths
        ''pdbqt'' example_kcal [example_dict_unknown] ?ch (example_app0, w_empty))
       = Inl KeyError"
    using b split example_unknown_prefix_ok by blast
  with a c show ?thesis
    by blast
qed

text \<open>
  C10. The selection list of the docking view (in the layout it displays) and the one of
  the interactions view (in the layout it returns) show as many rows as there are pose
  file paths, up to 52, and 52 rows when there are more.
\<close>

theorem pose_selector_rows:
  "(\<exists>lay. last (w_events (snd (docking py_str protein_filepath protein_file_extension
              list_docking_poses_filepaths docking_poses_file_extension
              list_docking_poses_labels list_docking_poses_affinities w))) = Display lay \<and>
          sel_rows (app_left_sidebar lay) =
            (if length list_docking_poses_filepaths \<le> 52
             then length list_docking_poses_filepaths else 52))
   \<and> (\<forall>app w'.
         interactions df_value py_str protein_filepath protein_file_extension
           list_docking_poses_filepaths docking_poses_file_extension
           list_docking_poses_labels list_docking_poses_affinities
           list_docking_poses_plip_dicts w = (Inr app, w')
         \<longrightarrow> sel_rows (app_left_sidebar app) =
               (if length list_docking_poses_filepaths \<le> 52
                then length list_docking_poses_filepaths else 52))"
proof (intro conjI allI impI)
  show "\<exists>lay. last (w_events (snd (docking py_str protein_filepath protein_file_extension
              list_docking_poses_filepaths docking_poses_file_extension
              list_docking_poses_labels list_docking_poses_affinities w))) = Display lay \<and>
          sel_rows (app_left_sidebar lay) =
            (if length list_docking_poses_filepaths \<le> 52
             then length list_docking_poses_filepaths else 52)"
    by (simp add: docking_events pose_selector_def)
next
  fix app w'
  let ?app0 = "\<lparr>app_left_sidebar =
                   pose_selector list_docking_poses_labels list_docking_poses_filepaths,
                 app_center = None, app_pane_widths = [1, 6, 1],
                 app_height = Some ''860px''\<rparr>"
  let ?run = "interactions_on_selection_change df_value py_str protein_filepath protein_file_extension
                list_docking_poses_filepaths docking_poses_file_extension
                (kcal_labels py_str list_docking_poses_affinities)
                list_docking_poses_plip_dicts
                \<lparr>ch_name = ''value'', ch_new = Some 0, ch_old = None\<rparr>
                (?app0, emit (Plt_show (take (2 * 4) color_map)) w)"
  assume a: "interactions df_value py_str protein_filepath protein_file_extension
           list_docking_poses_filepaths docking_poses_file_extension
           list_docking_poses_labels list_docking_poses_affinities
           list_docking_poses_plip_dicts w = (Inr app, w')"
  obtain r app1 w1 where run: "?run = (r, app1, w1)"
    by (cases ?run)
  from a have "app = app1"
    unfolding interactions_def Let_def run by (cases r) simp_all
  moreover have "app_left_sidebar app1 = app_left_sidebar ?app0"
    using run by (rule interactions_handler_sidebar)
  ultimately show "sel_rows (app_left_sidebar app) =
               (if length list_docking_poses_filepaths \<le> 52
                then length list_docking_poses_filepaths else 52)"
    by (simp add: pose_selector_def)
qed

theorem pose_selector_rows_witness:
  "(\<exists>lay. last (w_events (snd example_docking)) = Display lay \<and>
          sel_rows (app_left_sidebar lay) = 3)
   \<and> (\<exists>lay. last (w_events (snd (docking str_example ''rec.pdb'' ''pdb''
               (replicate 60 ''pose.pdbqt'') ''pdbqt'' [] [] w_empty))) = Display lay \<and>
          sel_rows (app_left_sidebar lay) = 52)
   \<and> example_interactions = (Inr example_app1, snd example_interactions)
   \<and> sel_rows (app_left_sidebar example_app1) = 3"
proof -
  note a = pose_selector_rows [of str_example "''rec.pdb''" "''pdb''" example_filepaths
      "''pdbqt''" example_labels example_affinities w_empty example_value example_plip_dicts]
  note b = pose_selector_rows [of str_example "''rec.pdb''" "''pdb''"
      "replicate 60 ''pose.pdbqt''" "''pdbqt''" "[]" "[]" w_empty example_value "[]",
      THEN conjunct1]
  have e: "example_interactions = (Inr example_app1, snd example_interactions)"
    by (simp add: example_interactions_eq)
  from a [THEN conjunct2, rule_format, OF e [unfolded example_interactions_def]]
  have "sel_rows (app_left_sidebar example_app1) = 3"
    by (simp add: example_lengths)
  moreover from a [THEN conjunct1]
  have "\<exists>lay. last (w_events (snd example_docking)) = Display lay \<and>
          sel_rows (app_left_sidebar lay) = 3"
    by (simp add: example_lengths example_docking_def)
  moreover from b
  have "\<exists>lay. last (w_events (snd (docking str_example ''rec.pdb'' ''pdb''
               (replicate 60 ''pose.pdbqt'') ''pdbqt'' [] [] w_empty))) = Display lay \<and>
          sel_rows (app_left_sidebar lay) = 52"
    by simp
  ultimately show ?thesis
    using e by simp
qed

end
